theory Spec2Isabelle
  imports Complex_Main "HOL-Library.AList"
begin

section \<open>Python primitives used by \<open>pyipn/constellation.py\<close>\<close>

text \<open>
  Python numbers are modelled as follows: the satellite and plane counts, which the source
  passes to \<open>range\<close>, are unbounded integers (\<open>int\<close>); every other number is a \<open>real\<close>.
  Python's binary floating point is idealised as exact real arithmetic in the model of the
  classes; the rounding of the conversions between degrees and radians is modelled apart,
  in the section on doubles. Every exception the source can raise is a value of
  \<open>py_error\<close>.
\<close>

datatype py_error = ZeroDivisionError | ValueError | KeyError | IndexError

text \<open>\<open>int(x)\<close> on a float truncates towards zero.\<close>

definition py_int :: "real \<Rightarrow> int" where
  "py_int x = (if 0 \<le> x then \<lfloor>x\<rfloor> else \<lceil>x\<rceil>)"

text \<open>\<open>a / b\<close> is true division and raises on a zero divisor.\<close>

definition py_truediv :: "real \<Rightarrow> real \<Rightarrow> py_error + real" where
  "py_truediv a b = (if b = 0 then Inl ZeroDivisionError else Inr (a / b))"

text \<open>\<open>range(start, stop)\<close> and \<open>range(start, stop, step)\<close>, as lists.\<close>

definition py_range :: "int \<Rightarrow> int \<Rightarrow> int list" where
  "py_range start stop = [start..stop - 1]"

definition py_range_step :: "int \<Rightarrow> int \<Rightarrow> int \<Rightarrow> py_error + int list" where
  "py_range_step start stop step =
     (if step = 0 then Inl ValueError
      else if 0 < step then
        Inr (map (\<lambda>k. start + int k * step) [0..<nat ((stop - start + step - 1) div step)])
      else
        Inr (map (\<lambda>k. start + int k * step) [0..<nat ((start - stop - step - 1) div (- step))]))"

text \<open>List indexing \<open>xs[i]\<close> and item assignment \<open>xs[i] = v\<close>: a negative index counts
  from the end, an index out of range raises \<open>IndexError\<close>.\<close>

definition py_index :: "nat \<Rightarrow> int \<Rightarrow> nat option" where
  "py_index len i =
     (if 0 \<le> i \<and> i < int len then Some (nat i)
      else if - int len \<le> i \<and> i < 0 then Some (nat (int len + i))
      else None)"

definition py_get :: "'a list \<Rightarrow> int \<Rightarrow> py_error + 'a" where
  "py_get xs i =
     (case py_index (length xs) i of None \<Rightarrow> Inl IndexError | Some j \<Rightarrow> Inr (xs ! j))"

definition py_set :: "'a list \<Rightarrow> int \<Rightarrow> 'a \<Rightarrow> py_error + 'a list" where
  "py_set xs i v =
     (case py_index (length xs) i of None \<Rightarrow> Inl IndexError | Some j \<Rightarrow> Inr (xs[j := v]))"

text \<open>\<open>s.replace(old, new)\<close> for a one-character \<open>old\<close>, the only form the source uses.\<close>

definition py_replace :: "char \<Rightarrow> string \<Rightarrow> string \<Rightarrow> string" where
  "py_replace old new s = concat (map (\<lambda>c. if c = old then new else [c]) s)"

text \<open>\<open>str(n)\<close> of an integer, as the f-string in \<open>_build_satellites\<close> formats it.\<close>

definition digit_char :: "nat \<Rightarrow> char" where
  "digit_char d = ''0123456789'' ! d"

fun str_nat :: "nat \<Rightarrow> string" where
  "str_nat n =
     (if n < 10 then [digit_char n]
      else str_nat (n div 10) @ [digit_char (n mod 10)])"

declare str_nat.simps [simp del]

definition str_int :: "int \<Rightarrow> string" where
  "str_int i = (if i < 0 then CHR ''-'' # str_nat (nat (- i)) else str_nat (nat i))"

text \<open>\<open>s.lower()\<close> on the ASCII letters.\<close>

definition lower_char :: "char \<Rightarrow> char" where
  "lower_char c =
     (case map_of (zip ''ABCDEFGHIJKLMNOPQRSTUVWXYZ'' ''abcdefghijklmnopqrstuvwxyz'') c of
        None \<Rightarrow> c
      | Some l \<Rightarrow> l)"

definition py_lower :: "string \<Rightarrow> string" where
  "py_lower s = map lower_char s"

section \<open>Name sanitisation\<close>

text \<open>\<open>clean_name(name)\<close>:
  \<open>name.replace(' ', '_').replace('(', '').replace(')', '')\<close>.\<close>

definition clean_name :: "string \<Rightarrow> string" where
  "clean_name name =
     py_replace (CHR '')'') [] (py_replace (CHR ''('') [] (py_replace (CHR '' '') ''_'' name))"

section \<open>Satellite\<close>

text \<open>
  The two external libraries a \<open>Satellite\<close> calls are parameters of the model:
  \<open>kepler_r env a e i arg_pe raan\<close> is the position \<open>ke.r\<close> (in metres) of
  \<open>KeplerianElements.with_altitude(a, e=e, i=i, arg_pe=arg_pe, raan=raan, body=earth)\<close>,
  and \<open>spherical env (x, y, z)\<close> is the pair \<open>(lon.deg, lat.deg)\<close> of the \<open>SkyCoord\<close>
  built from a Cartesian point (in kilometres).
\<close>

record extern =
  kepler_r :: "real \<Rightarrow> real \<Rightarrow> real \<Rightarrow> real \<Rightarrow> real \<Rightarrow> real \<times> real \<times> real"
  spherical :: "real \<times> real \<times> real \<Rightarrow> real \<times> real"

definition heavenly_body_radius :: "(string \<times> real) list" where
  "heavenly_body_radius =
     [(''earth'', 6371), (''luna'', 1737), (''mars'', 3390), (''venus'', 6052),
      (''mercury'', 2440), (''sol'', 695700), (''jupiter'', 69911), (''saturn'', 58232),
      (''uranus'', 25362), (''neptune'', 24622), (''pluto'', 1188)]"

text \<open>The attributes of a \<open>Satellite\<close> object; \<open>sat_x\<close> is the attribute \<open>self._x\<close>.\<close>

record satellite =
  sat_name :: string
  sat_altitude :: real
  sat_focus :: string
  sat_true_alt :: real
  sat_eccentricity :: real
  sat_effective_area :: real
  sat_inclination :: real
  sat_right_ascension :: real
  sat_perigee :: real
  sat_ta :: real
  sat_inclination_r :: real
  sat_right_ascension_r :: real
  sat_perigee_r :: real
  sat_ta_r :: real
  sat_ra :: real
  sat_dec :: real
  sat_xyz :: "real \<times> real \<times> real"

text \<open>\<open>_get_radius\<close>: \<open>heavenly_body_radius[self._focus.lower()]\<close>.\<close>

definition get_radius :: "string \<Rightarrow> py_error + real" where
  "get_radius focus =
     (case map_of heavenly_body_radius (py_lower focus) of
        None \<Rightarrow> Inl KeyError
      | Some r \<Rightarrow> Inr r)"

text \<open>\<open>_convert_to_rads()\<close> and \<open>_convert_to_degs()\<close> as \<open>__init__\<close> calls them, without a
  \<open>value\<close>: the four stored angles, each multiplied by the conversion factor.\<close>

definition convert_to_rads :: "real \<times> real \<times> real \<times> real \<Rightarrow> real \<times> real \<times> real \<times> real" where
  "convert_to_rads angles =
     (let to_rad = pi / 180 in
      case angles of (inclination, right_ascension, perigee, ta) \<Rightarrow>
        (inclination * to_rad, right_ascension * to_rad, perigee * to_rad, ta * to_rad))"

definition convert_to_degs :: "real \<times> real \<times> real \<times> real \<Rightarrow> real \<times> real \<times> real \<times> real" where
  "convert_to_degs angles =
     (let to_deg = 180 / pi in
      case angles of (inclination_r, right_ascension_r, perigee_r, ta_r) \<Rightarrow>
        (inclination_r * to_deg, right_ascension_r * to_deg, perigee_r * to_deg, ta_r * to_deg))"

text \<open>\<open>_compute_position\<close>: returns \<open>(self._ra, self._dec, self._xyz)\<close>. It reads the
  altitude, the eccentricity and the radian values of inclination, argument of perigee and
  RAAN.\<close>

definition compute_position ::
  "extern \<Rightarrow> real \<Rightarrow> real \<Rightarrow> real \<Rightarrow> real \<Rightarrow> real \<Rightarrow> real \<times> real \<times> (real \<times> real \<times> real)" where
  "compute_position env altitude eccentricity inclination_r perigee_r right_ascension_r =
     (case kepler_r env (altitude * 1000) eccentricity inclination_r perigee_r right_ascension_r of
        (x, y, z) \<Rightarrow>
          (case spherical env (x / 1000, y / 1000, z / 1000) of
             (lon, lat) \<Rightarrow> (lon, lat, (x / 1000, y / 1000, z / 1000))))"

text \<open>\<open>Satellite.__init__(name, altitude, eccentricity, inclination, right_ascension,
  perigee, ta, effective_area, focus, rads)\<close>. The radius lookup for \<open>_true_alt\<close> comes
  first and raises \<open>KeyError\<close> for a focus that is not in the table; then the four angles
  are stored in the unit given and converted to the other one, and the position is
  computed.\<close>

definition Satellite_init ::
  "extern \<Rightarrow> string \<Rightarrow> real \<Rightarrow> real \<Rightarrow> real \<Rightarrow> real \<Rightarrow> real \<Rightarrow> real \<Rightarrow> real \<Rightarrow> string \<Rightarrow> bool
     \<Rightarrow> py_error + satellite" where
  "Satellite_init env name altitude eccentricity inclination right_ascension perigee ta
       effective_area focus rads =
     (case get_radius focus of
        Inl err \<Rightarrow> Inl err
      | Inr radius \<Rightarrow>
          (let degs = (if \<not> rads then (inclination, right_ascension, perigee, ta)
                       else convert_to_degs (inclination, right_ascension, perigee, ta));
               radians = (if \<not> rads then convert_to_rads (inclination, right_ascension, perigee, ta)
                       else (inclination, right_ascension, perigee, ta))
           in case degs of (inc_d, raan_d, per_d, ta_d) \<Rightarrow>
              case radians of (inc_r, raan_r, per_r, ta_r) \<Rightarrow>
              case compute_position env altitude eccentricity inc_r per_r raan_r of
                (ra, dec, xyz) \<Rightarrow>
                  Inr \<lparr> sat_name = name, sat_altitude = altitude, sat_focus = focus,
                        sat_true_alt = altitude + radius, sat_eccentricity = eccentricity,
                        sat_effective_area = effective_area,
                        sat_inclination = inc_d, sat_right_ascension = raan_d,
                        sat_perigee = per_d, sat_ta = ta_d,
                        sat_inclination_r = inc_r, sat_right_ascension_r = raan_r,
                        sat_perigee_r = per_r, sat_ta_r = ta_r,
                        sat_ra = ra, sat_dec = dec, sat_xyz = xyz \<rparr>))"

text \<open>A record of the external TLE parser, with the attributes \<open>from_TLE\<close> reads.\<close>

record tle =
  tle_name :: string
  tle_a :: real
  tle_ecc :: real
  tle_inc :: real
  tle_raan :: real
  tle_argp :: real

text \<open>\<open>Satellite.from_TLE(tle)\<close>; \<open>effective_area\<close> and \<open>focus\<close> take their defaults
  \<open>1.\<close> and \<open>"earth"\<close>.\<close>

definition from_TLE :: "extern \<Rightarrow> tle \<Rightarrow> py_error + satellite" where
  "from_TLE env t =
     Satellite_init env (clean_name (tle_name t)) (tle_a t) (tle_ecc t) (tle_inc t) (tle_raan t)
       (tle_argp t) 0 1 ''earth'' False"

section \<open>Constellation\<close>

text \<open>\<open>_corrected_planes\<close>: returns \<open>(sats_per_plane, corrected_phasing)\<close>.\<close>

definition corrected_planes :: "int \<Rightarrow> int \<Rightarrow> real \<Rightarrow> py_error + int \<times> real" where
  "corrected_planes num_sats num_planes phasing =
     (case py_truediv (of_int num_sats) (of_int num_planes) of
        Inl err \<Rightarrow> Inl err
      | Inr q \<Rightarrow>
          (case py_truediv (360 * phasing) (of_int num_sats) of
             Inl err \<Rightarrow> Inl err
           | Inr corrected_phasing \<Rightarrow> Inr (py_int q, corrected_phasing)))"

text \<open>\<open>_perigee_positions\<close>: the anchor list \<open>range(0, 360, int(360/sats_per_plane))\<close>,
  appended to the table once for each \<open>i\<close> of \<open>range(num_sats)\<close>.\<close>

definition perigee_positions :: "int \<Rightarrow> int \<Rightarrow> py_error + int list" where
  "perigee_positions num_sats sats_per_plane =
     (case py_truediv 360 (of_int sats_per_plane) of
        Inl err \<Rightarrow> Inl err
      | Inr q \<Rightarrow>
          (case py_range_step 0 360 (py_int q) of
             Inl err \<Rightarrow> Inl err
           | Inr perigees \<Rightarrow>
               Inr (foldl (\<lambda>all_perigees i. all_perigees @ perigees) [] (py_range 0 num_sats))))"

text \<open>The loop shared by \<open>_calculate_raan\<close> and \<open>_calculate_ta\<close>:
  \<open>for i in ...: table[i] = table[i - sats_per_plane] + increment\<close>. The right-hand side is
  evaluated first (the read, then the increment), then the store.\<close>

fun offset_loop :: "int list \<Rightarrow> int \<Rightarrow> py_error + real \<Rightarrow> real list \<Rightarrow> py_error + real list" where
  "offset_loop [] sats_per_plane increment table = Inr table"
| "offset_loop (i # rest) sats_per_plane increment table =
     (case py_get table (i - sats_per_plane) of
        Inl err \<Rightarrow> Inl err
      | Inr prev \<Rightarrow>
          (case increment of
             Inl err \<Rightarrow> Inl err
           | Inr d \<Rightarrow>
               (case py_set table i (prev + d) of
                  Inl err \<Rightarrow> Inl err
                | Inr table' \<Rightarrow> offset_loop rest sats_per_plane increment table')))"

text \<open>\<open>_calculate_raan\<close>: the increment is \<open>360 / self._num_planes\<close>.\<close>

definition calculate_raan :: "int \<Rightarrow> int \<Rightarrow> int \<Rightarrow> py_error + real list" where
  "calculate_raan num_sats num_planes sats_per_plane =
     offset_loop (py_range sats_per_plane num_sats) sats_per_plane
       (py_truediv 360 (of_int num_planes)) (replicate (nat num_sats) 0)"

text \<open>\<open>_calculate_ta\<close>: the increment is \<open>self._correct_phasing\<close>.\<close>

definition calculate_ta :: "int \<Rightarrow> int \<Rightarrow> real \<Rightarrow> py_error + real list" where
  "calculate_ta num_sats sats_per_plane correct_phasing =
     offset_loop (py_range sats_per_plane num_sats) sats_per_plane
       (Inr correct_phasing) (replicate (nat num_sats) 0)"

text \<open>The attributes of a \<open>Constellation\<close> object; \<open>c_x\<close> is the attribute \<open>self._x\<close>.\<close>

record constellation =
  c_num_sats :: int
  c_num_planes :: int
  c_phasing :: real
  c_inclination :: real
  c_altitude :: real
  c_e :: real
  c_focus :: string
  c_start_num :: int
  c_constellation_name :: string
  c_sats_per_plane :: int
  c_correct_phasing :: real
  c_perigee_positions :: "int list"
  c_raan :: "real list"
  c_ta :: "real list"
  c_satellites :: "satellite list"

text \<open>\<open>_build_satellites\<close>: one \<open>Satellite(sat_name, altitude, e, inclination, raan[i],
  perigee_positions[i], ta[i], focus=focus)\<close> for each \<open>i\<close> of \<open>range(num_sats)\<close>. The call
  passes neither \<open>effective_area\<close> nor \<open>rads\<close>, which take their defaults \<open>1.\<close> and
  \<open>True\<close>.\<close>

fun build_loop ::
  "extern \<Rightarrow> string \<Rightarrow> int \<Rightarrow> real \<Rightarrow> real \<Rightarrow> real \<Rightarrow> string \<Rightarrow> real list \<Rightarrow> int list \<Rightarrow> real list
     \<Rightarrow> int list \<Rightarrow> satellite list \<Rightarrow> py_error + satellite list" where
  "build_loop env cname start_num altitude e inclination focus raan perigees ta [] satellites =
     Inr satellites"
| "build_loop env cname start_num altitude e inclination focus raan perigees ta (i # rest)
       satellites =
     (let sat_num = i + start_num + 1; sat_name = cname @ str_int sat_num in
      case py_get raan i of
        Inl err \<Rightarrow> Inl err
      | Inr raan_i \<Rightarrow>
          (case py_get perigees i of
             Inl err \<Rightarrow> Inl err
           | Inr perigee_i \<Rightarrow>
               (case py_get ta i of
                  Inl err \<Rightarrow> Inl err
                | Inr ta_i \<Rightarrow>
                    (case Satellite_init env sat_name altitude e inclination raan_i
                            (of_int perigee_i) ta_i 1 focus True of
                       Inl err \<Rightarrow> Inl err
                     | Inr sat \<Rightarrow>
                         build_loop env cname start_num altitude e inclination focus raan
                           perigees ta rest (satellites @ [sat])))))"

definition build_satellites ::
  "extern \<Rightarrow> string \<Rightarrow> int \<Rightarrow> int \<Rightarrow> real \<Rightarrow> real \<Rightarrow> real \<Rightarrow> string \<Rightarrow> real list \<Rightarrow> int list
     \<Rightarrow> real list \<Rightarrow> py_error + satellite list" where
  "build_satellites env cname start_num num_sats altitude e inclination focus raan perigees ta =
     build_loop env cname start_num altitude e inclination focus raan perigees ta
       (py_range 0 num_sats) []"

text \<open>\<open>Constellation.__init__(num_sats, num_planes, phasing, inclination, altitude,
  eccentricity, name)\<close>: the derived attributes are computed in the source's order, and the
  first exception ends the construction.\<close>

definition Constellation_init ::
  "extern \<Rightarrow> int \<Rightarrow> int \<Rightarrow> real \<Rightarrow> real \<Rightarrow> real \<Rightarrow> real \<Rightarrow> string \<Rightarrow> py_error + constellation" where
  "Constellation_init env num_sats num_planes phasing inclination altitude eccentricity name =
     (let focus = ''earth''; starting_number = 0 in
      (case corrected_planes num_sats num_planes phasing of
         Inl err \<Rightarrow> Inl err
       | Inr planes \<Rightarrow>
      (let sats_per_plane = fst planes; correct_phasing = snd planes in
      (case perigee_positions num_sats sats_per_plane of
         Inl err \<Rightarrow> Inl err
       | Inr perigees \<Rightarrow>
      (case calculate_raan num_sats num_planes sats_per_plane of
         Inl err \<Rightarrow> Inl err
       | Inr raan \<Rightarrow>
      (case calculate_ta num_sats sats_per_plane correct_phasing of
         Inl err \<Rightarrow> Inl err
       | Inr ta \<Rightarrow>
      (case build_satellites env name starting_number num_sats altitude eccentricity inclination
              focus raan perigees ta of
         Inl err \<Rightarrow> Inl err
       | Inr satellites \<Rightarrow>
           Inr \<lparr> c_num_sats = num_sats, c_num_planes = num_planes, c_phasing = phasing,
                 c_inclination = inclination, c_altitude = altitude, c_e = eccentricity,
                 c_focus = focus, c_start_num = starting_number, c_constellation_name = name,
                 c_sats_per_plane = sats_per_plane, c_correct_phasing = correct_phasing,
                 c_perigee_positions = perigees, c_raan = raan, c_ta = ta,
                 c_satellites = satellites \<rparr>)))))))"

section \<open>SatelliteCollection\<close>

text \<open>The attributes of a \<open>SatelliteCollection\<close>. The \<open>OrderedDict\<close> of satellites is
  an association list in insertion order; storing under a key already present replaces
  the value in place (\<open>AList.update\<close>), as the dictionary does.\<close>

record satellite_collection =
  n_satellites :: int
  satellites :: "(string \<times> satellite) list"
  normal_pointing :: bool

text \<open>\<open>add_satellite(satellite)\<close>. The \<open>isinstance\<close> assertion holds by typing.\<close>

definition add_satellite :: "satellite_collection \<Rightarrow> satellite \<Rightarrow> satellite_collection" where
  "add_satellite self satellite =
     self \<lparr> satellites := AList.update (sat_name satellite) satellite (satellites self),
            n_satellites := n_satellites self + 1 \<rparr>"

text \<open>\<open>SatelliteCollection.__init__(*satellites, normal_pointing)\<close>: the count is
  overwritten with the size of the mapping once all satellites are added. The source
  assigns \<open>_normal_pointing\<close> last; \<open>add_satellite\<close> does not read it.\<close>

definition SatelliteCollection_init :: "satellite list \<Rightarrow> bool \<Rightarrow> satellite_collection" where
  "SatelliteCollection_init sats np =
     (let self = foldl add_satellite
                   \<lparr> n_satellites = 0, satellites = [], normal_pointing = np \<rparr> sats
      in self \<lparr> n_satellites := int (length (satellites self)) \<rparr>)"

text \<open>\<open>from_tle_file(tle_file, normal_pointing)\<close>, given the records \<open>TLE.load(tle_file)\<close>
  returns. The source ends with \<open>return cls(*sats)\<close>.\<close>

fun tle_loop :: "extern \<Rightarrow> tle list \<Rightarrow> satellite list \<Rightarrow> py_error + satellite list" where
  "tle_loop env [] sats = Inr sats"
| "tle_loop env (t # tles) sats =
     (case from_TLE env t of
        Inl err \<Rightarrow> Inl err
      | Inr sat \<Rightarrow> tle_loop env tles (sats @ [sat]))"

definition from_tle_file :: "extern \<Rightarrow> tle list \<Rightarrow> bool \<Rightarrow> py_error + satellite_collection" where
  "from_tle_file env tles np =
     (case tle_loop env tles [] of
        Inl err \<Rightarrow> Inl err
      | Inr sats \<Rightarrow> Inr (SatelliteCollection_init sats False))"

text \<open>\<open>from_constellation(...)\<close>.\<close>

definition from_constellation ::
  "extern \<Rightarrow> int \<Rightarrow> int \<Rightarrow> real \<Rightarrow> real \<Rightarrow> real \<Rightarrow> real \<Rightarrow> string \<Rightarrow> bool
     \<Rightarrow> py_error + satellite_collection" where
  "from_constellation env num_sats num_planes phasing inclination altitude eccentricity name np =
     (case Constellation_init env num_sats num_planes phasing inclination altitude
             eccentricity name of
        Inl err \<Rightarrow> Inl err
      | Inr constellation \<Rightarrow> Inr (SatelliteCollection_init (c_satellites constellation) np))"

text \<open>The exported configuration mapping of \<open>as_dict\<close>.\<close>

record pointing =
  p_ra :: real
  p_dec :: real

record sat_dict =
  d_ra :: real
  d_dec :: real
  d_altitude :: real
  d_time :: string
  d_pointing :: pointing
  d_effective_area :: real

record group_dict =
  g_seed :: int
  g_grb :: "(string \<times> real) list"
  g_detectors :: "(string \<times> sat_dict) list"

text \<open>The body of the loop of \<open>as_dict\<close> for one satellite.\<close>

definition detector_entry :: "bool \<Rightarrow> satellite \<Rightarrow> sat_dict" where
  "detector_entry np sat =
     \<lparr> d_ra = sat_ra sat, d_dec = sat_dec sat, d_altitude = sat_altitude sat,
       d_time = ''2010-01-01T00:00:00'',
       d_pointing = (if np then \<lparr> p_ra = sat_ra sat, p_dec = sat_dec sat \<rparr>
                     else \<lparr> p_ra = 80, p_dec = - 30 \<rparr>),
       d_effective_area = sat_effective_area sat \<rparr>"

text \<open>\<open>as_dict(grb_dict)\<close>; \<open>None\<close> stands for the default argument.\<close>

definition as_dict :: "satellite_collection \<Rightarrow> (string \<times> real) list option \<Rightarrow> group_dict" where
  "as_dict self grb_dict =
     (let grb = (case grb_dict of
                   None \<Rightarrow> [(''ra'', 80), (''dec'', - 30), (''distance'', 500), (''K'', 500),
                            (''t_rise'', 1), (''t_decay'', 7)]
                 | Some g \<Rightarrow> g);
          det_dict = foldl (\<lambda>det item. AList.update (fst item)
                               (detector_entry (normal_pointing self) (snd item)) det)
                       [] (satellites self)
      in \<lparr> g_seed = 1234, g_grb = grb, g_detectors = det_dict \<rparr>)"

section \<open>A concrete environment for examples\<close>

text \<open>A stand-in for the two external libraries, used where an example has to be a closed
  term: the position vector lists the altitude, the inclination and the RAAN it is given, and the
  sky coordinates are its first two components.\<close>

definition example_env :: extern where
  "example_env =
     \<lparr> kepler_r = (\<lambda>a e i arg_pe raan. (a, i, raan)),
       spherical = (\<lambda>p. (fst p, fst (snd p))) \<rparr>"

section \<open>The angles of a satellite on doubles\<close>

text \<open>
  The conversions between degrees and radians are also modelled with the rounding of
  Python's floats. A double is a real number; \<open>fl x\<close> is the double nearest to \<open>x\<close>, ties
  going to the even significand, with 53 significant bits and the subnormal numbers below
  \<open>2^-1022\<close>. Overflow to infinity, infinities and NaN are not represented: what is proved
  about \<open>fl\<close> is stated for magnitudes up to \<open>2^1000\<close>, whose conversions stay finite.
\<close>

definition round_half_even :: "real \<Rightarrow> int" where
  "round_half_even y =
     (let f = \<lfloor>y\<rfloor> in
      if y - of_int f < 1 / 2 then f
      else if 1 / 2 < y - of_int f then f + 1
      else if even f then f else f + 1)"

text \<open>The result of one floating-point operation whose exact result is \<open>x\<close>.\<close>

definition fl :: "real \<Rightarrow> real" where
  "fl x =
     (if x = 0 then 0
      else (let e = max \<lfloor>log 2 \<bar>x\<bar>\<rfloor> (- 1022); ulp = 2 powi (e - 52)
            in of_int (round_half_even (x / ulp)) * ulp))"

text \<open>\<open>math.pi\<close>, and the two factors \<open>to_rad = pi / 180\<close> and \<open>to_deg = 180 / pi\<close> as the
  source computes them, each by one division.\<close>

definition pi_fl :: real where
  "pi_fl = 884279719003555 / 2 ^ 48"

definition to_rad_fl :: real where
  "to_rad_fl = fl (pi_fl / 180)"

definition to_deg_fl :: real where
  "to_deg_fl = fl (180 / pi_fl)"

text \<open>\<open>_convert_to_rads()\<close> and \<open>_convert_to_degs()\<close> on doubles: each stored angle times
  the factor, one multiplication each.\<close>

definition convert_to_rads_fl :: "real \<times> real \<times> real \<times> real \<Rightarrow> real \<times> real \<times> real \<times> real" where
  "convert_to_rads_fl angles =
     (case angles of (inclination, right_ascension, perigee, ta) \<Rightarrow>
        (fl (inclination * to_rad_fl), fl (right_ascension * to_rad_fl),
         fl (perigee * to_rad_fl), fl (ta * to_rad_fl)))"

definition convert_to_degs_fl :: "real \<times> real \<times> real \<times> real \<Rightarrow> real \<times> real \<times> real \<times> real" where
  "convert_to_degs_fl angles =
     (case angles of (inclination_r, right_ascension_r, perigee_r, ta_r) \<Rightarrow>
        (fl (inclination_r * to_deg_fl), fl (right_ascension_r * to_deg_fl),
         fl (perigee_r * to_deg_fl), fl (ta_r * to_deg_fl)))"

text \<open>The part of \<open>Satellite.__init__\<close> that stores the angles: the pair of the degree
  attributes and the radian attributes, for the angles and the flag \<open>rads\<close> given.\<close>

definition stored_angles_fl ::
  "bool \<Rightarrow> real \<times> real \<times> real \<times> real
     \<Rightarrow> (real \<times> real \<times> real \<times> real) \<times> (real \<times> real \<times> real \<times> real)" where
  "stored_angles_fl rads angles =
     (if \<not> rads then (angles, convert_to_rads_fl angles)
      else (convert_to_degs_fl angles, angles))"

text \<open>The four angles in the order inclination, RAAN, argument of perigee, true
  anomaly.\<close>

definition angles_list :: "real \<times> real \<times> real \<times> real \<Rightarrow> real list" where
  "angles_list angles = (case angles of (a, b, c, d) \<Rightarrow> [a, b, c, d])"

section \<open>Properties of name sanitisation\<close>

lemma clean_name_Nil: "clean_name [] = []"
  by (simp add: clean_name_def py_replace_def)

lemma clean_name_Cons:
  "clean_name (c # cs) =
     (if c = CHR '' '' then CHR ''_'' # clean_name cs
      else if c = CHR ''('' \<or> c = CHR '')'' then clean_name cs
      else c # clean_name cs)"
  by (simp add: clean_name_def py_replace_def)

lemma clean_name_fixed:
  "CHR '' '' \<notin> set s \<Longrightarrow> CHR ''('' \<notin> set s \<Longrightarrow> CHR '')'' \<notin> set s \<Longrightarrow> clean_name s = s"
  by (induction s) (auto simp add: clean_name_Nil clean_name_Cons)

lemma clean_name_chars:
  "CHR '' '' \<notin> set (clean_name s) \<and> CHR ''('' \<notin> set (clean_name s) \<and>
   CHR '')'' \<notin> set (clean_name s)"
  by (induction s) (auto simp add: clean_name_Nil clean_name_Cons)

text \<open>
  Claim C7. Name sanitisation is idempotent: sanitising a sanitised name changes nothing;
  and the name \<open>ISS (ZARYA)\<close> sanitises to \<open>ISS_ZARYA\<close>.
\<close>

theorem clean_name_idempotent:
  "clean_name (clean_name x) = clean_name x \<and> clean_name ''ISS (ZARYA)'' = ''ISS_ZARYA''"
proof
  show "clean_name (clean_name x) = clean_name x"
    using clean_name_chars [of x] by (simp add: clean_name_fixed)
  show "clean_name ''ISS (ZARYA)'' = ''ISS_ZARYA''"
    by (simp add: clean_name_def py_replace_def)
qed

section \<open>Properties of the primitives\<close>

lemma py_range_nat: "0 \<le> a \<Longrightarrow> py_range a b = map int [nat a..<nat b]"
  unfolding py_range_def
  by (rule nth_equalityI) (auto simp add: nat_diff_distrib')

lemma py_range_0: "py_range 0 (int n) = map int [0..<n]"
  using py_range_nat [of 0 "int n"] by simp

lemma py_get_nat: "i < length xs \<Longrightarrow> py_get xs (int i) = Inr (xs ! i)"
  by (simp add: py_get_def py_index_def)

lemma py_set_nat: "i < length xs \<Longrightarrow> py_set xs (int i) v = Inr (xs[i := v])"
  by (simp add: py_set_def py_index_def)

lemma concat_replicate_comm: "concat (replicate n ps) @ ps = ps @ concat (replicate n ps)"
  by (induction n) simp_all

lemma foldl_append_const:
  "foldl (\<lambda>acc i. acc @ ps) acc xs = acc @ concat (replicate (length xs) ps)"
  by (induction xs arbitrary: acc) (simp_all add: concat_replicate_comm)

lemma py_int_div: "0 \<le> a \<Longrightarrow> 0 < b \<Longrightarrow> py_int (of_int a / of_int b) = a div b"
  by (simp add: py_int_def floor_divide_of_int_eq)

section \<open>The tables of a constellation in closed form\<close>

lemma offset_loop_upt:
  assumes "0 < s" "s \<le> k" "k \<le> n" "length tab = n"
      and "\<forall>i<k. tab ! i = real (i div s) * d"
  shows "offset_loop (map int [k..<n]) (int s) (Inr d) tab =
           Inr (map (\<lambda>i. real (i div s) * d) [0..<n])"
  using assms
proof (induction "n - k" arbitrary: k tab)
  case 0
  then have "k = n" by simp
  with 0 have "tab = map (\<lambda>i. real (i div s) * d) [0..<n]"
    by (intro nth_equalityI) simp_all
  with \<open>k = n\<close> show ?case by simp
next
  case (Suc m)
  then have kn: "k < n" by simp
  let ?v = "tab ! (k - s) + d"
  let ?tab = "tab[k := ?v]"
  have get: "py_get tab (int k - int s) = Inr (tab ! (k - s))"
    using py_get_nat [of "k - s" tab] kn Suc.prems by simp
  have set: "py_set tab (int k) ?v = Inr ?tab"
    using py_set_nat [of k tab ?v] kn Suc.prems by simp
  have "k div s = Suc ((k - s) div s)"
    using Suc.prems by (simp add: le_div_geq)
  moreover have "tab ! (k - s) = real ((k - s) div s) * d"
    using Suc.prems by simp
  ultimately have v: "?v = real (k div s) * d"
    by (simp add: algebra_simps)
  have inv: "\<forall>i<Suc k. ?tab ! i = real (i div s) * d"
    using Suc.prems kn v by (auto simp add: nth_list_update less_Suc_eq)
  have "offset_loop (map int [Suc k..<n]) (int s) (Inr d) ?tab =
          Inr (map (\<lambda>i. real (i div s) * d) [0..<n])"
    using Suc.hyps(1) [of "Suc k" ?tab] Suc.hyps(2) Suc.prems kn inv by simp
  then show ?case
    using kn get set by (simp add: upt_conv_Cons)
qed

lemma get_radius_earth: "get_radius ''earth'' = Inr 6371"
  by (simp add: get_radius_def py_lower_def lower_char_def heavenly_body_radius_def)

lemma Satellite_init_earth:
  "Satellite_init env name altitude e inc raan per ta ea ''earth'' True =
     Inr \<lparr> sat_name = name, sat_altitude = altitude, sat_focus = ''earth'',
           sat_true_alt = altitude + 6371, sat_eccentricity = e, sat_effective_area = ea,
           sat_inclination = inc * (180 / pi), sat_right_ascension = raan * (180 / pi),
           sat_perigee = per * (180 / pi), sat_ta = ta * (180 / pi),
           sat_inclination_r = inc, sat_right_ascension_r = raan,
           sat_perigee_r = per, sat_ta_r = ta,
           sat_ra = fst (compute_position env altitude e inc per raan),
           sat_dec = fst (snd (compute_position env altitude e inc per raan)),
           sat_xyz = snd (snd (compute_position env altitude e inc per raan)) \<rparr>"
  by (simp add: Satellite_init_def get_radius_earth convert_to_degs_def split: prod.splits)

lemma build_loop_upt:
  assumes "n \<le> length raan" "n \<le> length perigees" "n \<le> length ta"
  shows "build_loop env cname start altitude e inc ''earth'' raan perigees ta
           (map int [k..<n]) acc =
         Inr (acc @ map (\<lambda>i. projr (Satellite_init env (cname @ str_int (int i + start + 1))
                                     altitude e inc (raan ! i) (of_int (perigees ! i)) (ta ! i)
                                     1 ''earth'' True)) [k..<n])"
proof (induction "n - k" arbitrary: k acc)
  case 0
  then show ?case by simp
next
  case (Suc m)
  then have kn: "k < n" by simp
  have step: "[k..<n] = k # [Suc k..<n]"
    using kn by (simp add: upt_conv_Cons)
  have gets: "py_get raan (int k) = Inr (raan ! k)"
    "py_get perigees (int k) = Inr (perigees ! k)" "py_get ta (int k) = Inr (ta ! k)"
    using kn assms by (simp_all add: py_get_nat)
  have ih: "build_loop env cname start altitude e inc ''earth'' raan perigees ta
              (map int [Suc k..<n]) acc' =
            Inr (acc' @ map (\<lambda>i. projr (Satellite_init env (cname @ str_int (int i + start + 1))
                                     altitude e inc (raan ! i) (of_int (perigees ! i)) (ta ! i)
                                     1 ''earth'' True)) [Suc k..<n])" for acc'
    using Suc.hyps(1) [of "Suc k" acc'] Suc.hyps(2) by simp
  show ?case
    unfolding step by (simp add: gets ih Satellite_init_earth Let_def)
qed

lemma corrected_planes_ok:
  "1 \<le> p \<Longrightarrow> 1 \<le> n \<Longrightarrow> corrected_planes n p ph = Inr (n div p, 360 * ph / of_int n)"
  by (simp add: corrected_planes_def py_truediv_def py_int_div)

lemma perigee_positions_ok:
  assumes "1 \<le> s" "s \<le> 360" "0 \<le> n"
  shows "perigee_positions n s =
           Inr (concat (replicate (nat n)
                  (map (\<lambda>k. int k * (360 div s)) [0..<nat ((359 + 360 div s) div (360 div s))])))"
proof -
  have q: "py_int (360 / of_int s) = 360 div s"
    using py_int_div [of 360 s] assms by simp
  have pos: "0 < 360 div s"
    using assms by (simp add: pos_imp_zdiv_pos_iff)
  have r: "py_range 0 n = map int [0..<nat n]"
    using py_range_nat [of 0 n] by simp
  show ?thesis
    using assms pos
    by (simp add: perigee_positions_def py_truediv_def q py_range_step_def r
          foldl_append_const)
qed

lemma offsets_ok:
  assumes "1 \<le> s" "0 \<le> n"
  shows "offset_loop (py_range s n) s (Inr d) (replicate (nat n) 0) =
           Inr (map (\<lambda>i. real (i div nat s) * d) [0..<nat n])"
proof (cases "s \<le> n")
  case True
  have "offset_loop (map int [nat s..<nat n]) (int (nat s)) (Inr d) (replicate (nat n) 0) =
          Inr (map (\<lambda>i. real (i div nat s) * d) [0..<nat n])"
    using assms True by (intro offset_loop_upt) simp_all
  then show ?thesis
    using assms py_range_nat [of s n] by simp
next
  case False
  then have "py_range s n = []" by (simp add: py_range_def)
  moreover have "replicate (nat n) 0 = map (\<lambda>i. real (i div nat s) * d) [0..<nat n]"
    using False assms by (intro nth_equalityI) simp_all
  ultimately show ?thesis by simp
qed

lemma Constellation_init_ok:
  assumes "1 \<le> p" "p \<le> n" "n div p \<le> 360"
  shows "Constellation_init env n p ph inc alt e name =
     Inr \<lparr> c_num_sats = n, c_num_planes = p, c_phasing = ph, c_inclination = inc,
           c_altitude = alt, c_e = e, c_focus = ''earth'', c_start_num = 0,
           c_constellation_name = name, c_sats_per_plane = n div p,
           c_correct_phasing = 360 * ph / of_int n,
           c_perigee_positions =
             concat (replicate (nat n)
               (map (\<lambda>k. int k * (360 div (n div p)))
                  [0..<nat ((359 + 360 div (n div p)) div (360 div (n div p)))])),
           c_raan = map (\<lambda>i. real (i div nat (n div p)) * (360 / of_int p)) [0..<nat n],
           c_ta = map (\<lambda>i. real (i div nat (n div p)) * (360 * ph / of_int n)) [0..<nat n],
           c_satellites =
             map (\<lambda>i. projr (Satellite_init env (name @ str_int (int i + 0 + 1)) alt e inc
                     (map (\<lambda>i. real (i div nat (n div p)) * (360 / of_int p)) [0..<nat n] ! i)
                     (of_int (concat (replicate (nat n)
                        (map (\<lambda>k. int k * (360 div (n div p)))
                           [0..<nat ((359 + 360 div (n div p)) div (360 div (n div p)))])) ! i))
                     (map (\<lambda>i. real (i div nat (n div p)) * (360 * ph / of_int n))
                        [0..<nat n] ! i)
                     1 ''earth'' True)) [0..<nat n] \<rparr>"
proof -
  let ?s = "n div p"
  let ?anchors = "map (\<lambda>k. int k * (360 div ?s)) [0..<nat ((359 + 360 div ?s) div (360 div ?s))]"
  let ?per = "concat (replicate (nat n) ?anchors)"
  let ?raan = "map (\<lambda>i. real (i div nat ?s) * (360 / of_int p)) [0..<nat n]"
  let ?ta = "map (\<lambda>i. real (i div nat ?s) * (360 * ph / of_int n)) [0..<nat n]"
  have s1: "1 \<le> ?s"
    using assms by (simp add: pos_imp_zdiv_pos_iff int_one_le_iff_zero_less)
  have n1: "1 \<le> n" using assms by simp
  have cp: "corrected_planes n p ph = Inr (?s, 360 * ph / of_int n)"
    using assms n1 by (simp add: corrected_planes_ok)
  have pp: "perigee_positions n ?s = Inr ?per"
    using s1 assms n1 by (simp add: perigee_positions_ok)
  have raan: "calculate_raan n p ?s = Inr ?raan"
    using assms s1 n1 offsets_ok [of ?s n "360 / of_int p"]
    by (simp add: calculate_raan_def py_truediv_def)
  have ta: "calculate_ta n ?s (360 * ph / of_int n) = Inr ?ta"
    using s1 n1 offsets_ok [of ?s n "360 * ph / of_int n"]
    by (simp add: calculate_ta_def)
  have pos: "0 < 360 div ?s"
    using s1 assms by (simp add: pos_imp_zdiv_pos_iff)
  then have "0 < (359 + 360 div ?s) div (360 div ?s)"
    by (simp add: pos_imp_zdiv_pos_iff pos_imp_zdiv_nonneg_iff)
  then have "1 \<le> length ?anchors" by simp
  then have "nat n * 1 \<le> nat n * length ?anchors"
    by (rule mult_le_mono2)
  then have len: "nat n \<le> length ?per"
    by (simp add: length_concat sum_list_replicate)
  have r0: "py_range 0 n = map int [0..<nat n]"
    using py_range_nat [of 0 n] by simp
  have build: "build_satellites env name 0 n alt e inc ''earth'' ?raan ?per ?ta =
      Inr (map (\<lambda>i. projr (Satellite_init env (name @ str_int (int i + 0 + 1)) alt e inc
                  (?raan ! i) (of_int (?per ! i)) (?ta ! i) 1 ''earth'' True)) [0..<nat n])"
    unfolding build_satellites_def r0
    using build_loop_upt [of "nat n" ?raan ?per ?ta env name 0 alt e inc 0 "[]"] len
    by simp
  show ?thesis
    unfolding Constellation_init_def Let_def cp sum.case fst_conv snd_conv pp raan ta build
    by (rule refl)
qed

lemma Constellation_init_tables:
  assumes "1 \<le> p" "p \<le> n" "n div p \<le> 360"
  shows "\<exists>c. Constellation_init env n p ph inc alt e name = Inr c \<and>
     c_sats_per_plane c = n div p \<and>
     c_correct_phasing c = 360 * ph / of_int n \<and>
     c_perigee_positions c =
       concat (replicate (nat n)
         (map (\<lambda>k. int k * (360 div (n div p)))
            [0..<nat ((359 + 360 div (n div p)) div (360 div (n div p)))])) \<and>
     c_raan c = map (\<lambda>i. real (i div nat (n div p)) * (360 / of_int p)) [0..<nat n] \<and>
     c_ta c = map (\<lambda>i. real (i div nat (n div p)) * (360 * ph / of_int n)) [0..<nat n] \<and>
     length (c_satellites c) = nat n \<and>
     (\<forall>i. i < nat n \<longrightarrow>
        c_satellites c ! i =
          projr (Satellite_init env (name @ str_int (int i + 0 + 1)) alt e inc
                   (c_raan c ! i) (of_int (c_perigee_positions c ! i)) (c_ta c ! i)
                   1 ''earth'' True))"
  unfolding Constellation_init_ok [OF assms]
  by simp

lemma concat_replicate_nth:
  "i < m * length xs \<Longrightarrow> concat (replicate m xs) ! i = xs ! (i mod length xs)"
proof (induction m arbitrary: i)
  case 0
  then show ?case by simp
next
  case (Suc m)
  show ?case
  proof (cases "i < length xs")
    case True
    then show ?thesis by (simp add: nth_append)
  next
    case False
    then have "i - length xs < m * length xs"
      using Suc.prems by simp
    then have "concat (replicate m xs) ! (i - length xs) = xs ! ((i - length xs) mod length xs)"
      by (rule Suc.IH)
    then show ?thesis
      using False by (simp add: nth_append le_mod_geq)
  qed
qed

lemma satellite_slot:
  "projr (Satellite_init env name altitude e inc raan per ta ea ''earth'' True) =
     \<lparr> sat_name = name, sat_altitude = altitude, sat_focus = ''earth'',
       sat_true_alt = altitude + 6371, sat_eccentricity = e, sat_effective_area = ea,
       sat_inclination = inc * (180 / pi), sat_right_ascension = raan * (180 / pi),
       sat_perigee = per * (180 / pi), sat_ta = ta * (180 / pi),
       sat_inclination_r = inc, sat_right_ascension_r = raan,
       sat_perigee_r = per, sat_ta_r = ta,
       sat_ra = fst (compute_position env altitude e inc per raan),
       sat_dec = fst (snd (compute_position env altitude e inc per raan)),
       sat_xyz = snd (snd (compute_position env altitude e inc per raan)) \<rparr>"
  by (simp add: Satellite_init_earth)

section \<open>Planes of a constellation\<close>




section \<open>Counts that the planes do not divide\<close>

text \<open>
  Claim C6, as amended. For \<open>num_planes \<ge> 1\<close> and \<open>1 \<le> floor(num_sats / num_planes) \<le> 360\<close>
  with \<open>num_sats % num_planes \<noteq> 0\<close>, the constructor returns a constellation with exactly
  \<open>num_sats\<close> satellites; its per-plane count is the truncated quotient; the anchor list is
  \<open>range(0, 360, 360 // sats_per_plane)\<close>; the perigee table is that list repeated
  \<open>num_sats\<close> times; and slot \<open>i\<close> reads the anchor of index \<open>i\<close> modulo the number of
  anchors, which is the value its satellite is constructed from. Without the bound of 360
  the construction raises \<open>ValueError\<close>, as the counterexample below shows for 723
  satellites in 2 planes.
\<close>

theorem constellation_remainder:
  assumes "1 \<le> num_planes" and "1 \<le> num_sats div num_planes"
    and "num_sats mod num_planes \<noteq> 0" and "num_sats div num_planes \<le> 360"
  shows "\<exists>c anchors.
           Constellation_init env num_sats num_planes phasing inclination altitude
             eccentricity name = Inr c \<and>
           int (length (c_satellites c)) = num_sats \<and>
           c_sats_per_plane c = num_sats div num_planes \<and>
           py_range_step 0 360 (360 div c_sats_per_plane c) = Inr anchors \<and>
           c_perigee_positions c = concat (replicate (nat num_sats) anchors) \<and>
           (\<forall>i. i < nat num_sats \<longrightarrow>
                c_perigee_positions c ! i = anchors ! (i mod length anchors) \<and>
                sat_perigee_r (c_satellites c ! i) = of_int (anchors ! (i mod length anchors)))"
proof -
  let ?s = "num_sats div num_planes"
  let ?anchors = "map (\<lambda>k. int k * (360 div ?s)) [0..<nat ((359 + 360 div ?s) div (360 div ?s))]"
  have le: "num_planes \<le> num_sats"
    using assms(1,2) by (simp add: pos_imp_zdiv_pos_iff int_one_le_iff_zero_less)
  have n1: "1 \<le> num_sats" using assms(1) le by simp
  obtain c where init: "Constellation_init env num_sats num_planes phasing inclination
        altitude eccentricity name = Inr c"
    and spp: "c_sats_per_plane c = ?s"
    and per: "c_perigee_positions c = concat (replicate (nat num_sats) ?anchors)"
    and len: "length (c_satellites c) = nat num_sats"
    and sats: "\<forall>i. i < nat num_sats \<longrightarrow>
        c_satellites c ! i =
          projr (Satellite_init env (name @ str_int (int i + 0 + 1)) altitude eccentricity
                   inclination (c_raan c ! i) (of_int (c_perigee_positions c ! i)) (c_ta c ! i)
                   1 ''earth'' True)"
    using Constellation_init_tables [OF assms(1) le assms(4), of env phasing inclination
        altitude eccentricity name] by blast
  have pos: "0 < 360 div ?s"
    using assms(2,4) by (simp add: pos_imp_zdiv_pos_iff)
  then have "0 < (359 + 360 div ?s) div (360 div ?s)"
    by (simp add: pos_imp_zdiv_pos_iff pos_imp_zdiv_nonneg_iff)
  then have "1 \<le> length ?anchors" by simp
  then have "nat num_sats * 1 \<le> nat num_sats * length ?anchors"
    by (rule mult_le_mono2)
  then have ge: "nat num_sats \<le> nat num_sats * length ?anchors"
    by (simp only: mult_1_right)
  have bound: "i < nat num_sats * length ?anchors" if "i < nat num_sats" for i
    using that ge by (rule less_le_trans)
  have range: "py_range_step 0 360 (360 div c_sats_per_plane c) = Inr ?anchors"
    using pos by (simp add: py_range_step_def spp)
  have wrap: "c_perigee_positions c ! i = ?anchors ! (i mod length ?anchors)"
    if "i < nat num_sats" for i
    unfolding per using bound [OF that] by (rule concat_replicate_nth)
  have carried: "sat_perigee_r (c_satellites c ! i) = of_int (c_perigee_positions c ! i)"
    if "i < nat num_sats" for i
    using that sats by (simp add: satellite_slot)
  have "int (length (c_satellites c)) = num_sats"
    using len n1 by simp
  then show ?thesis
    using init spp range per wrap carried
    by (intro exI [of _ c] exI [of _ ?anchors]) (simp del: length_map map_eq_conv)
qed

theorem constellation_remainder_witness:
  "\<exists>c anchors. Constellation_init example_env 7 2 1 53 550 0 ''det'' = Inr c \<and>
       int (length (c_satellites c)) = 7 \<and> c_sats_per_plane c = 3 \<and>
       anchors = [0, 120, 240] \<and>
       c_perigee_positions c ! 6 = anchors ! 0 \<and>
       sat_perigee_r (c_satellites c ! 6) = of_int (anchors ! 0)"
proof -
  have h: "(1::int) \<le> 2" "(1::int) \<le> 7 div 2" "(7::int) mod 2 \<noteq> 0" "(7::int) div 2 \<le> 360"
    by simp_all
  obtain c anchors where c: "Constellation_init example_env 7 2 1 53 550 0 ''det'' = Inr c"
      "int (length (c_satellites c)) = 7" "c_sats_per_plane c = 7 div 2"
      "py_range_step 0 360 (360 div c_sats_per_plane c) = Inr anchors"
      "\<forall>i. i < nat 7 \<longrightarrow>
           c_perigee_positions c ! i = anchors ! (i mod length anchors) \<and>
           sat_perigee_r (c_satellites c ! i) = of_int (anchors ! (i mod length anchors))"
    using constellation_remainder [OF h, of example_env 1 53 550 0 "''det''"]
    by blast
  have spp: "c_sats_per_plane c = 3"
    using c(3) by simp
  have anchors: "anchors = [0, 120, 240]"
    using c(4) by (simp add: spp py_range_step_def upt_conv_Cons)
  have "c_perigee_positions c ! 6 = anchors ! 0 \<and>
        sat_perigee_r (c_satellites c ! 6) = of_int (anchors ! 0)"
    using c(5) [rule_format, of 6] by (simp add: anchors)
  then show ?thesis
    using c(1,2) spp anchors by blast
qed

theorem constellation_remainder_counterexample:
  "Constellation_init example_env 723 2 1 53 550 0 ''det'' = Inl ValueError"
  by (simp add: Constellation_init_def corrected_planes_def perigee_positions_def
      py_truediv_def py_int_def py_range_step_def)

section \<open>The scenario with six satellites in two planes\<close>

text \<open>
  Claim C2, as amended. For \<open>Constellation(num_sats=6, num_planes=2, phasing=1,
  inclination=53, altitude=550, eccentricity=0)\<close> the per-plane count is 3, the corrected
  phasing angle is 60, the RAAN table is \<open>[0, 0, 0, 180, 180, 180]\<close> and the true-anomaly
  table is \<open>[0, 0, 0, 60, 60, 60]\<close>: the true anomaly follows the same recurrence as the
  RAAN, so it is constant within a plane and advances by the phasing angle from one plane to
  the next. The table is not \<open>[0, 60, 120, 0, 60, 120]\<close>, as the counterexample below
  shows.
\<close>

theorem constellation_scenario:
  "\<exists>c. Constellation_init env 6 2 1 53 550 0 name = Inr c \<and>
       c_sats_per_plane c = 3 \<and> c_correct_phasing c = 60 \<and>
       c_raan c = [0, 0, 0, 180, 180, 180] \<and> c_ta c = [0, 0, 0, 60, 60, 60]"
proof -
  have h: "(1::int) \<le> 2" "(2::int) \<le> 6" "(6::int) div 2 \<le> 360"
    by simp_all
  obtain c where c: "Constellation_init env 6 2 1 53 550 0 name = Inr c"
      "c_sats_per_plane c = 6 div 2" "c_correct_phasing c = 360 * 1 / of_int 6"
      "c_raan c = map (\<lambda>i. real (i div nat (6 div 2)) * (360 / of_int 2)) [0..<nat 6]"
      "c_ta c = map (\<lambda>i. real (i div nat (6 div 2)) * (360 * 1 / of_int 6)) [0..<nat 6]"
    using Constellation_init_tables [OF h, of env 1 53 550 0 name] by blast
  have "c_raan c = [0, 0, 0, 180, 180, 180]"
    unfolding c(4) by (simp add: upt_conv_Cons)
  moreover have "c_ta c = [0, 0, 0, 60, 60, 60]"
    unfolding c(5) by (simp add: upt_conv_Cons)
  ultimately show ?thesis
    using c(1,2,3) by simp
qed

theorem constellation_scenario_counterexample:
  "map_sum id c_ta (Constellation_init example_env 6 2 1 53 550 0 ''det'') \<noteq>
     Inr [0, 60, 120, 0, 60, 120]"
proof -
  have h: "(1::int) \<le> 2" "(2::int) \<le> 6" "(6::int) div 2 \<le> 360"
    by simp_all
  obtain c where c: "Constellation_init example_env 6 2 1 53 550 0 ''det'' = Inr c"
      "c_ta c = map (\<lambda>i. real (i div nat (6 div 2)) * (360 * 1 / of_int 6)) [0..<nat 6]"
    using Constellation_init_tables [OF h, of example_env 1 53 550 0 "''det''"] by blast
  have "c_ta c = [0, 0, 0, 60, 60, 60]"
    unfolding c(2) by (simp add: upt_conv_Cons)
  then show ?thesis
    by (simp add: c(1))
qed

section \<open>The angles a constellation hands to its satellites\<close>

lemma degs_of_rads_neq:
  assumes "x \<noteq> 0"
  shows "x * (180 / pi) \<noteq> (x::real)"
proof
  assume "x * (180 / pi) = x"
  then have "x * (180 / pi) = x * 1" by simp
  then have "180 / pi = 1"
    using assms by (simp only: mult_cancel_left) simp
  then have "pi = 180"
    by (simp add: field_simps)
  then show False
    using pi_less_4 by simp
qed

text \<open>
  Claim C1. \<open>_build_satellites\<close> calls \<open>Satellite(...)\<close> without \<open>rads=False\<close>, so the
  constructor takes the inclination and the table values as radians. For the six-satellite
  scenario, slot 3 is named \<open>det4\<close>, its table RAAN is 180 and the inclination parameter is
  53; these are the radian attributes of the satellite, and its degree attributes are
  \<open>53 * 180 / pi\<close> and \<open>180 * 180 / pi\<close>, not 53 and 180.
\<close>

theorem constellation_angles_taken_as_radians:
  "\<exists>c. Constellation_init env 6 2 1 53 550 0 ''det'' = Inr c \<and>
       sat_name (c_satellites c ! 3) = ''det4'' \<and>
       sat_inclination_r (c_satellites c ! 3) = 53 \<and>
       sat_inclination (c_satellites c ! 3) = 53 * (180 / pi) \<and>
       sat_inclination (c_satellites c ! 3) \<noteq> 53 \<and>
       c_raan c ! 3 = 180 \<and>
       sat_right_ascension_r (c_satellites c ! 3) = 180 \<and>
       sat_right_ascension (c_satellites c ! 3) = 180 * (180 / pi) \<and>
       sat_right_ascension (c_satellites c ! 3) \<noteq> 180"
proof -
  have h: "(1::int) \<le> 2" "(2::int) \<le> 6" "(6::int) div 2 \<le> 360"
    by simp_all
  obtain c where c: "Constellation_init env 6 2 1 53 550 0 ''det'' = Inr c"
      "c_raan c = map (\<lambda>i. real (i div nat (6 div 2)) * (360 / of_int 2)) [0..<nat 6]"
      "\<forall>i. i < nat 6 \<longrightarrow>
        c_satellites c ! i =
          projr (Satellite_init env (''det'' @ str_int (int i + 0 + 1)) 550 0 53
                   (c_raan c ! i) (of_int (c_perigee_positions c ! i)) (c_ta c ! i)
                   1 ''earth'' True)"
    using Constellation_init_tables [OF h, of env 1 53 550 0 "''det''"] by blast
  have raan: "c_raan c ! 3 = 180"
    unfolding c(2) by simp
  have name: "str_int 4 = ''4''"
    by (simp add: str_int_def str_nat.simps digit_char_def)
  have sat: "c_satellites c ! 3 =
      projr (Satellite_init env (''det'' @ str_int 4) 550 0 53 180
               (of_int (c_perigee_positions c ! 3)) (c_ta c ! 3) 1 ''earth'' True)"
    using c(3) [rule_format, of 3] raan by simp
  have f1: "sat_name (c_satellites c ! 3) = ''det4''"
    by (simp add: sat satellite_slot name)
  have f2: "sat_inclination_r (c_satellites c ! 3) = 53"
    by (simp add: sat satellite_slot)
  have f3: "sat_inclination (c_satellites c ! 3) = 53 * (180 / pi)"
    by (simp add: sat satellite_slot)
  have f4: "sat_inclination (c_satellites c ! 3) \<noteq> 53"
    unfolding f3 by (rule degs_of_rads_neq) simp
  have f5: "sat_right_ascension_r (c_satellites c ! 3) = 180"
    by (simp add: sat satellite_slot)
  have f6: "sat_right_ascension (c_satellites c ! 3) = 180 * (180 / pi)"
    by (simp add: sat satellite_slot)
  have f7: "sat_right_ascension (c_satellites c ! 3) \<noteq> 180"
    unfolding f6 by (rule degs_of_rads_neq) simp
  show ?thesis
    using c(1) raan f1 f2 f3 f4 f5 f6 f7 by blast
qed

section \<open>The count and the mapping of a collection\<close>

lemma foldl_add_satellite_pointing:
  "normal_pointing (foldl add_satellite self sats) = normal_pointing self"
  by (induction sats arbitrary: self) (simp_all add: add_satellite_def)

lemma SatelliteCollection_init_pointing:
  "normal_pointing (SatelliteCollection_init sats np) = np"
  by (simp add: SatelliteCollection_init_def Let_def foldl_add_satellite_pointing)

lemma SatelliteCollection_init_count:
  "n_satellites (SatelliteCollection_init sats np) =
     int (length (satellites (SatelliteCollection_init sats np)))"
  by (simp add: SatelliteCollection_init_def Let_def)

lemma add_satellite_new_name:
  assumes "n_satellites self = int (length (satellites self))"
    and "sat_name sat \<notin> fst ` set (satellites self)"
  shows "n_satellites (add_satellite self sat) = int (length (satellites (add_satellite self sat)))"
proof -
  have "length (AList.update k v al) = Suc (length al)" if "k \<notin> fst ` set al"
    for k :: string and v :: satellite and al
    using that by (induction al) auto
  then show ?thesis
    using assms by (simp add: add_satellite_def)
qed

text \<open>
  Claim C4. The constructor leaves the count equal to the size of the mapping, and adding a
  satellite under a new name keeps it so (the two lemmas above). Adding a satellite whose
  name is already a key does not: the mapping keeps its size and the count grows. After
  \<open>c = SatelliteCollection(sat)\<close> and \<open>c.add_satellite(sat)\<close> the count is 2 and the
  mapping has 1 entry.
\<close>

theorem add_satellite_duplicate_count:
  "n_satellites (add_satellite (SatelliteCollection_init [sat] np) sat) = 2 \<and>
   length (satellites (add_satellite (SatelliteCollection_init [sat] np) sat)) = 1"
  by (simp add: SatelliteCollection_init_def add_satellite_def Let_def)

section \<open>The exported configuration mapping\<close>

lemma update_set:
  "(k', v') \<in> set (AList.update k v al) \<Longrightarrow> (k', v') = (k, v) \<or> (k', v') \<in> set al"
  by (induction al) (auto split: if_splits)

lemma detectors_from_satellites:
  "(name, d) \<in> set (foldl (\<lambda>det item. AList.update (fst item)
                        (detector_entry np (snd item)) det) acc items) \<Longrightarrow>
   (name, d) \<in> set acc \<or> (\<exists>sat. (name, sat) \<in> set items \<and> d = detector_entry np sat)"
proof (induction items arbitrary: acc)
  case Nil
  then show ?case by simp
next
  case (Cons item items)
  from Cons.prems have "(name, d) \<in> set (AList.update (fst item) (detector_entry np (snd item)) acc)
      \<or> (\<exists>sat. (name, sat) \<in> set items \<and> d = detector_entry np sat)"
    using Cons.IH [of "AList.update (fst item) (detector_entry np (snd item)) acc"] by simp
  then show ?case
  proof
    assume "(name, d) \<in> set (AList.update (fst item) (detector_entry np (snd item)) acc)"
    then have "(name, d) = (fst item, detector_entry np (snd item)) \<or> (name, d) \<in> set acc"
      by (rule update_set)
    then show ?thesis
      by (cases item) auto
  next
    assume "\<exists>sat. (name, sat) \<in> set items \<and> d = detector_entry np sat"
    then show ?thesis by auto
  qed
qed

lemma detectors_keys:
  "fst ` set (foldl (\<lambda>det item. AList.update (fst item)
                        (detector_entry np (snd item)) det) acc items) =
   fst ` set acc \<union> fst ` set items"
  by (induction items arbitrary: acc) (auto simp add: dom_update)

text \<open>
  Claim C8. The detectors of the exported mapping have the names of the collection's
  satellites, and every detector is the entry of a satellite stored under its name: it has
  that satellite's \<open>ra\<close> and \<open>dec\<close>, and its pointing is that satellite's own
  \<open>(ra, dec)\<close> when nadir pointing is enabled and the fixed direction
  \<open>{ra: 80, dec: -30}\<close> when it is disabled.
\<close>

theorem as_dict_pointing:
  "fst ` set (g_detectors (as_dict self grb_dict)) = fst ` set (satellites self) \<and>
   (\<forall>name d. (name, d) \<in> set (g_detectors (as_dict self grb_dict)) \<longrightarrow>
      (\<exists>sat. (name, sat) \<in> set (satellites self) \<and>
             d_ra d = sat_ra sat \<and> d_dec d = sat_dec sat \<and>
             d_pointing d = (if normal_pointing self
                             then \<lparr> p_ra = sat_ra sat, p_dec = sat_dec sat \<rparr>
                             else \<lparr> p_ra = 80, p_dec = - 30 \<rparr>)))"
proof (intro conjI allI impI)
  show "fst ` set (g_detectors (as_dict self grb_dict)) = fst ` set (satellites self)"
    by (simp add: as_dict_def Let_def detectors_keys)
next
  fix name d
  assume "(name, d) \<in> set (g_detectors (as_dict self grb_dict))"
  then have "\<exists>sat. (name, sat) \<in> set (satellites self) \<and>
                   d = detector_entry (normal_pointing self) sat"
    using detectors_from_satellites [of name d "normal_pointing self" "[]" "satellites self"]
    by (simp add: as_dict_def Let_def)
  then show "\<exists>sat. (name, sat) \<in> set (satellites self) \<and>
             d_ra d = sat_ra sat \<and> d_dec d = sat_dec sat \<and>
             d_pointing d = (if normal_pointing self
                             then \<lparr> p_ra = sat_ra sat, p_dec = sat_dec sat \<rparr>
                             else \<lparr> p_ra = 80, p_dec = - 30 \<rparr>)"
    by (auto simp add: detector_entry_def)
qed

theorem as_dict_pointing_witness:
  "(''a'', detector_entry True
       (projr (Satellite_init example_env ''a'' 550 0 53 180 0 0 1 ''earth'' True)))
     \<in> set (g_detectors (as_dict
           (SatelliteCollection_init
              [projr (Satellite_init example_env ''a'' 550 0 53 180 0 0 1 ''earth'' True),
               projr (Satellite_init example_env ''b'' 550 0 53 0 0 0 1 ''earth'' True)] True)
           None)) \<and>
   (\<exists>sat. (''a'', sat) \<in> set (satellites
           (SatelliteCollection_init
              [projr (Satellite_init example_env ''a'' 550 0 53 180 0 0 1 ''earth'' True),
               projr (Satellite_init example_env ''b'' 550 0 53 0 0 0 1 ''earth'' True)] True)) \<and>
          d_pointing (detector_entry True
            (projr (Satellite_init example_env ''a'' 550 0 53 180 0 0 1 ''earth'' True))) =
            \<lparr> p_ra = sat_ra sat, p_dec = sat_dec sat \<rparr>)"
proof -
  let ?a = "projr (Satellite_init example_env ''a'' 550 0 53 180 0 0 1 ''earth'' True)"
  let ?b = "projr (Satellite_init example_env ''b'' 550 0 53 0 0 0 1 ''earth'' True)"
  let ?c = "SatelliteCollection_init [?a, ?b] True"
  have names: "sat_name ?a = ''a''" "sat_name ?b = ''b''"
    by (simp_all add: satellite_slot)
  have sats: "satellites ?c = [(''a'', ?a), (''b'', ?b)]"
    by (simp add: SatelliteCollection_init_def Let_def add_satellite_def names)
  have np: "normal_pointing ?c = True"
    by (simp add: SatelliteCollection_init_pointing)
  have mem: "(''a'', detector_entry True ?a) \<in> set (g_detectors (as_dict ?c None))"
    by (simp add: as_dict_def Let_def sats np)
  from as_dict_pointing [of ?c None, THEN conjunct2, rule_format, OF mem]
  have "\<exists>sat. (''a'', sat) \<in> set (satellites ?c) \<and>
          d_pointing (detector_entry True ?a) = \<lparr> p_ra = sat_ra sat, p_dec = sat_dec sat \<rparr>"
    unfolding np by auto
  with mem show ?thesis by blast
qed

section \<open>The position of a satellite\<close>

lemma Satellite_init_position:
  assumes "Satellite_init env name altitude e inc raan per ta ea focus rads = Inr s"
  shows "(sat_ra s, sat_dec s, sat_xyz s) =
           (if rads then compute_position env altitude e inc per raan
            else compute_position env altitude e (inc * (pi / 180)) (per * (pi / 180))
                   (raan * (pi / 180)))"
  using assms
  by (auto simp add: Satellite_init_def Let_def convert_to_rads_def convert_to_degs_def
      split: sum.splits prod.splits if_splits)

text \<open>
  Claim C9. Two satellites constructed with the same altitude, eccentricity, inclination,
  RAAN, argument of perigee and focus (and the same unit of the angles) have the same
  Cartesian position and the same sky coordinates, whatever their true anomalies, names and
  effective areas: the position is computed from the other elements alone.
\<close>

theorem position_independent_of_ta:
  assumes "Satellite_init env name1 altitude e inc raan per ta1 ea1 focus rads = Inr s1"
    and "Satellite_init env name2 altitude e inc raan per ta2 ea2 focus rads = Inr s2"
  shows "sat_xyz s1 = sat_xyz s2 \<and> sat_ra s1 = sat_ra s2 \<and> sat_dec s1 = sat_dec s2"
proof -
  have "(sat_ra s1, sat_dec s1, sat_xyz s1) = (sat_ra s2, sat_dec s2, sat_xyz s2)"
    unfolding Satellite_init_position [OF assms(1)] Satellite_init_position [OF assms(2)]
    by (rule refl)
  then show ?thesis by simp
qed

lemma Satellite_init_earth_Inr:
  "Satellite_init env name altitude e inc raan per ta ea ''earth'' rads =
     Inr (projr (Satellite_init env name altitude e inc raan per ta ea ''earth'' rads))"
  by (simp add: Satellite_init_def get_radius_earth Let_def split: prod.splits)

theorem position_independent_of_ta_witness:
  "sat_xyz (projr (Satellite_init example_env ''a'' 550 0 53 180 0 0 1 ''earth'' True)) =
     sat_xyz (projr (Satellite_init example_env ''b'' 550 0 53 180 0 2 1 ''earth'' True)) \<and>
   sat_ra (projr (Satellite_init example_env ''a'' 550 0 53 180 0 0 1 ''earth'' True)) =
     sat_ra (projr (Satellite_init example_env ''b'' 550 0 53 180 0 2 1 ''earth'' True)) \<and>
   sat_dec (projr (Satellite_init example_env ''a'' 550 0 53 180 0 0 1 ''earth'' True)) =
     sat_dec (projr (Satellite_init example_env ''b'' 550 0 53 180 0 2 1 ''earth'' True)) \<and>
   sat_ta_r (projr (Satellite_init example_env ''a'' 550 0 53 180 0 0 1 ''earth'' True)) = 0 \<and>
   sat_ta_r (projr (Satellite_init example_env ''b'' 550 0 53 180 0 2 1 ''earth'' True)) = 2"
  using position_independent_of_ta [OF Satellite_init_earth_Inr Satellite_init_earth_Inr,
      of example_env "''a''" 550 0 53 180 0 0 1 True "''b''" 2 1]
  by (simp add: satellite_slot)

section \<open>Collections read from TLE records\<close>

lemma as_dict_entries:
  assumes "(name, d) \<in> set (g_detectors (as_dict self grb_dict))"
  shows "\<exists>sat. (name, sat) \<in> set (satellites self) \<and>
               d = detector_entry (normal_pointing self) sat"
  using detectors_from_satellites [of name d "normal_pointing self" "[]" "satellites self"]
    assms
  by (simp add: as_dict_def Let_def)

lemma from_TLE_Inr: "from_TLE env t = Inr (projr (from_TLE env t))"
  unfolding from_TLE_def by (rule Satellite_init_earth_Inr)

lemma tle_loop_Cons:
  "tle_loop env (t # tles) sats = tle_loop env tles (sats @ [projr (from_TLE env t)])"
proof (cases "from_TLE env t")
  case (Inl err)
  then show ?thesis
    using from_TLE_Inr [of env t] by simp
next
  case (Inr sat)
  then show ?thesis by simp
qed

lemma tle_loop_Inr: "\<exists>sats. tle_loop env tles acc = Inr sats"
proof (induction tles arbitrary: acc)
  case Nil
  then show ?case by simp
next
  case (Cons t tles)
  obtain sats where "tle_loop env tles (acc @ [projr (from_TLE env t)]) = Inr sats"
    using Cons.IH by blast
  then show ?case
    by (simp only: tle_loop_Cons) blast
qed

text \<open>
  Claim C10. \<open>from_tle_file\<close> does not use its \<open>normal_pointing\<close> argument: its result is
  the one for \<open>normal_pointing=False\<close>, it always is a collection, that collection has
  nadir pointing disabled, and every detector of its export points to the fixed direction
  \<open>{ra: 80, dec: -30}\<close>.
\<close>

theorem from_tle_file_ignores_normal_pointing:
  "from_tle_file env tles np = from_tle_file env tles False \<and>
   (\<exists>c. from_tle_file env tles np = Inr c \<and> \<not> normal_pointing c \<and>
        (\<forall>name d. (name, d) \<in> set (g_detectors (as_dict c grb_dict)) \<longrightarrow>
                  d_pointing d = \<lparr> p_ra = 80, p_dec = - 30 \<rparr>))"
proof
  show "from_tle_file env tles np = from_tle_file env tles False"
    by (simp add: from_tle_file_def)
next
  obtain sats where sats: "tle_loop env tles [] = Inr sats"
    using tle_loop_Inr by blast
  let ?c = "SatelliteCollection_init sats False"
  have c: "from_tle_file env tles np = Inr ?c"
    by (simp add: from_tle_file_def sats)
  have np: "\<not> normal_pointing ?c"
    by (simp add: SatelliteCollection_init_pointing)
  have "d_pointing d = \<lparr> p_ra = 80, p_dec = - 30 \<rparr>"
    if "(name, d) \<in> set (g_detectors (as_dict ?c grb_dict))" for name d
    using as_dict_entries [of name d ?c grb_dict] that np
    by (auto simp add: detector_entry_def)
  then show "\<exists>c. from_tle_file env tles np = Inr c \<and> \<not> normal_pointing c \<and>
        (\<forall>name d. (name, d) \<in> set (g_detectors (as_dict c grb_dict)) \<longrightarrow>
                  d_pointing d = \<lparr> p_ra = 80, p_dec = - 30 \<rparr>)"
    using c np by blast
qed

theorem from_tle_file_ignores_normal_pointing_witness:
  "\<exists>c d. from_tle_file example_env
            [\<lparr> tle_name = ''ISS (ZARYA)'', tle_a = 6798, tle_ecc = 0, tle_inc = 51,
               tle_raan = 0, tle_argp = 0 \<rparr>] True = Inr c \<and>
         \<not> normal_pointing c \<and>
         (''ISS_ZARYA'', d) \<in> set (g_detectors (as_dict c None)) \<and>
         d_pointing d = \<lparr> p_ra = 80, p_dec = - 30 \<rparr>"
proof -
  let ?t = "\<lparr> tle_name = ''ISS (ZARYA)'', tle_a = 6798, tle_ecc = 0, tle_inc = 51,
               tle_raan = 0, tle_argp = 0 \<rparr>"
  obtain c where c: "from_tle_file example_env [?t] True = Inr c" "\<not> normal_pointing c"
      "\<forall>name d. (name, d) \<in> set (g_detectors (as_dict c None)) \<longrightarrow>
                  d_pointing d = \<lparr> p_ra = 80, p_dec = - 30 \<rparr>"
    using from_tle_file_ignores_normal_pointing [of example_env "[?t]" True None] by blast
  have name: "sat_name (projr (from_TLE example_env ?t)) = ''ISS_ZARYA''"
    by (simp add: from_TLE_def Satellite_init_def get_radius_earth Let_def clean_name_def
        py_replace_def split: prod.splits)
  have "from_tle_file example_env [?t] True =
          Inr (SatelliteCollection_init [projr (from_TLE example_env ?t)] False)"
    by (simp only: from_tle_file_def tle_loop_Cons tle_loop.simps(1) append_Nil sum.case)
  then have "c = SatelliteCollection_init [projr (from_TLE example_env ?t)] False"
    using c(1) by simp
  then have "satellites c = [(''ISS_ZARYA'', projr (from_TLE example_env ?t))]"
    by (simp add: SatelliteCollection_init_def Let_def add_satellite_def name)
  then have "fst ` set (g_detectors (as_dict c None)) = {''ISS_ZARYA''}"
    by (simp add: as_dict_def Let_def)
  then have "''ISS_ZARYA'' \<in> fst ` set (g_detectors (as_dict c None))"
    by (simp only: insertI1)
  then obtain d where d: "(''ISS_ZARYA'', d) \<in> set (g_detectors (as_dict c None))"
    by auto
  then have "d_pointing d = \<lparr> p_ra = 80, p_dec = - 30 \<rparr>"
    using c(3) by blast
  with c(1,2) d show ?thesis by blast
qed

section \<open>Degrees and radians in exact arithmetic\<close>

text \<open>
  In the exact real arithmetic of this model the two conversions are inverse to each
  other, and the stored radian value of each angle of a satellite is its stored degree
  value times \<open>pi / 180\<close>, whichever unit the constructor was given. The source computes
  with binary floating point, where these equations hold up to rounding only; the
  section on doubles states what holds there.
\<close>

lemma convert_round_trip_exact:
  "convert_to_degs (convert_to_rads angles) = angles \<and>
   convert_to_rads (convert_to_degs angles) = angles"
  by (cases angles) (simp add: convert_to_degs_def convert_to_rads_def)

lemma Satellite_init_angles_exact:
  assumes "Satellite_init env name altitude e inc raan per ta ea focus rads = Inr s"
  shows "sat_inclination_r s = sat_inclination s * (pi / 180) \<and>
         sat_right_ascension_r s = sat_right_ascension s * (pi / 180) \<and>
         sat_perigee_r s = sat_perigee s * (pi / 180) \<and>
         sat_ta_r s = sat_ta s * (pi / 180)"
  using assms
  by (auto simp add: Satellite_init_def Let_def convert_to_rads_def convert_to_degs_def
      split: sum.splits prod.splits if_splits)

section \<open>Rounding to a double\<close>

lemma round_half_even_error: "\<bar>of_int (round_half_even y) - y\<bar> \<le> 1 / 2"
proof -
  have "of_int \<lfloor>y\<rfloor> \<le> y" "y < of_int \<lfloor>y\<rfloor> + 1"
    by linarith+
  then show ?thesis
    by (auto simp add: round_half_even_def Let_def)
qed

lemma round_half_even_eqI:
  assumes "\<bar>y - of_int n\<bar> < 1 / 2"
  shows "round_half_even y = n"
proof -
  have "\<bar>of_int (round_half_even y) - y\<bar> \<le> 1 / 2"
    by (rule round_half_even_error)
  then have "\<bar>(of_int (round_half_even y) :: real) - of_int n\<bar> < 1"
    using assms by linarith
  then have "\<bar>round_half_even y - n\<bar> < 1"
    by (metis of_int_diff of_int_abs of_int_less_1_iff)
  then show ?thesis by simp
qed

lemma floor_log2_eqI:
  assumes "2 powi e \<le> \<bar>x\<bar>" and "\<bar>x\<bar> < 2 powi (e + 1)"
  shows "\<lfloor>log 2 \<bar>x::real\<bar>\<rfloor> = e"
proof -
  have pos: "0 < \<bar>x\<bar>"
    using assms(1) zero_less_power_int [of "2::real" e] by linarith
  have "(2::real) powr real_of_int e = 2 powi e"
    "(2::real) powr (real_of_int e + 1) = 2 powi (e + 1)"
    using powr_real_of_int' [of "2::real" e] powr_real_of_int' [of "2::real" "e + 1"]
    by simp_all
  then show ?thesis
    using assms pos by (simp add: floor_log_eq_powr_iff)
qed

lemma fl_eqI:
  assumes "2 powi e \<le> \<bar>x\<bar>" and "\<bar>x\<bar> < 2 powi (e + 1)" and "- 1022 \<le> e"
    and "\<bar>x - of_int n * 2 powi (e - 52)\<bar> < 2 powi (e - 52) / 2"
  shows "fl x = of_int n * 2 powi (e - 52)"
proof -
  have p: "0 < (2::real) powi e" by simp
  have x0: "x \<noteq> 0"
  proof
    assume "x = 0"
    with assms(1) have "(2::real) powi e \<le> 0" by simp
    with p show False by linarith
  qed
  have e: "max \<lfloor>log 2 \<bar>x\<bar>\<rfloor> (- 1022) = e"
    using floor_log2_eqI [OF assms(1,2)] assms(3) by simp
  have ulp: "0 < (2::real) powi (e - 52)" by simp
  have "\<bar>x / 2 powi (e - 52) - of_int n\<bar> = \<bar>x - of_int n * 2 powi (e - 52)\<bar> / 2 powi (e - 52)"
    using ulp by (simp add: field_simps abs_divide flip: abs_mult)
  also have "\<dots> < 1 / 2"
    using assms(4) ulp by (simp add: field_simps)
  finally have "round_half_even (x / 2 powi (e - 52)) = n"
    by (rule round_half_even_eqI)
  then show ?thesis
    using x0 e by (simp add: fl_def Let_def)
qed

lemma fl_error:
  assumes "x = 0 \<or> 2 powi (- 1022) \<le> \<bar>x\<bar>"
  shows "\<bar>fl x - x\<bar> \<le> 2 powi (- 53) * \<bar>x\<bar>"
proof (cases "x = 0")
  case True
  then show ?thesis by (simp add: fl_def)
next
  case False
  with assms have low: "2 powi (- 1022) \<le> \<bar>x\<bar>" by simp
  define e where "e = \<lfloor>log 2 \<bar>x\<bar>\<rfloor>"
  have pos: "0 < \<bar>x\<bar>" using False by simp
  have pw: "(2::real) powr real_of_int k = 2 powi k" for k
    using powr_real_of_int' [of "2::real" k] by simp
  have "2 powr real_of_int e \<le> \<bar>x\<bar>"
    using pos floor_log_eq_powr_iff [of "\<bar>x\<bar>" 2 e] by (simp add: e_def)
  then have ge: "2 powi e \<le> \<bar>x\<bar>"
    by (simp add: pw)
  have "2 powr real_of_int (- 1022) \<le> \<bar>x\<bar>"
    using low by (simp only: pw)
  then have "real_of_int (- 1022) \<le> log 2 \<bar>x\<bar>"
    using pos by (simp add: le_log_iff del: of_int_minus of_int_numeral)
  then have e_low: "- 1022 \<le> e"
    unfolding e_def by (simp only: le_floor_iff)
  then have m: "max e (- 1022) = e" by simp
  let ?ulp = "(2::real) powi (e - 52)"
  have ulp: "0 < ?ulp" by simp
  have flx: "fl x = of_int (round_half_even (x / ?ulp)) * ?ulp"
    using False m by (simp add: fl_def Let_def e_def)
  have "\<bar>fl x - x\<bar> = \<bar>of_int (round_half_even (x / ?ulp)) - x / ?ulp\<bar> * ?ulp"
    unfolding flx using ulp
    by (simp add: field_simps abs_mult flip: abs_mult)
  also have "\<dots> \<le> 1 / 2 * ?ulp"
    using round_half_even_error [of "x / ?ulp"] ulp by (intro mult_right_mono) simp_all
  also have "\<dots> = 2 powi (- 53) * 2 powi e"
    by (simp add: power_int_diff power_int_minus)
  also have "\<dots> \<le> 2 powi (- 53) * \<bar>x\<bar>"
    using ge by (intro mult_left_mono) simp_all
  finally show ?thesis .
qed

lemma to_rad_fl_value: "to_rad_fl = 5030569068109113 / 2 ^ 58"
proof -
  have "fl (pi_fl / 180) = of_int 5030569068109113 * 2 powi (- 6 - 52)"
    by (rule fl_eqI) (simp_all add: pi_fl_def)
  then show ?thesis
    by (simp add: to_rad_fl_def)
qed

lemma to_deg_fl_value: "to_deg_fl = 8063664102031864 / 2 ^ 47"
proof -
  have "fl (180 / pi_fl) = of_int 8063664102031864 * 2 powi (5 - 52)"
    by (rule fl_eqI) (simp_all add: pi_fl_def)
  then show ?thesis
    by (simp add: to_deg_fl_def)
qed

lemma fl_60_to_rad: "fl (60 * to_rad_fl) = 4716158501352293 / 2 ^ 52"
proof -
  have "fl (60 * to_rad_fl) = of_int 4716158501352293 * 2 powi (0 - 52)"
    by (rule fl_eqI) (simp_all add: to_rad_fl_value)
  then show ?thesis by simp
qed

lemma fl_60_round_trip: "fl (fl (60 * to_rad_fl) * to_deg_fl) = 8444249301319679 / 2 ^ 47"
proof -
  have "fl (4716158501352293 / 2 ^ 52 * to_deg_fl) = of_int 8444249301319679 * 2 powi (5 - 52)"
    by (rule fl_eqI) (simp_all add: to_deg_fl_value)
  then show ?thesis by (simp add: fl_60_to_rad)
qed

lemma fl_43_to_deg: "fl (43 * to_deg_fl) = 5417774318552659 / 2 ^ 41"
proof -
  have "fl (43 * to_deg_fl) = of_int 5417774318552659 * 2 powi (11 - 52)"
    by (rule fl_eqI) (simp_all add: to_deg_fl_value)
  then show ?thesis by simp
qed

lemma fl_43_round_trip: "fl (fl (43 * to_deg_fl) * to_rad_fl) = 6051711999279105 / 2 ^ 47"
proof -
  have "fl (5417774318552659 / 2 ^ 41 * to_rad_fl) = of_int 6051711999279105 * 2 powi (5 - 52)"
    by (rule fl_eqI) (simp_all add: to_rad_fl_value)
  then show ?thesis by (simp add: fl_43_to_deg)
qed

lemma rel_err_trans:
  assumes "\<bar>y - x\<bar> \<le> a * \<bar>x\<bar>" and "\<bar>z - y\<bar> \<le> b * \<bar>y\<bar>" and "0 \<le> b"
  shows "\<bar>z - x\<bar> \<le> (a + b + a * b) * \<bar>x::real\<bar>"
proof -
  have "\<bar>y\<bar> \<le> \<bar>x\<bar> + \<bar>y - x\<bar>" by linarith
  then have "\<bar>y\<bar> \<le> \<bar>x\<bar> + a * \<bar>x\<bar>" using assms(1) by linarith
  then have "b * \<bar>y\<bar> \<le> b * (\<bar>x\<bar> + a * \<bar>x\<bar>)"
    using assms(3) by (rule mult_left_mono)
  then have "\<bar>z - y\<bar> \<le> b * (\<bar>x\<bar> + a * \<bar>x\<bar>)"
    using assms(2) by linarith
  moreover have "\<bar>z - x\<bar> \<le> \<bar>z - y\<bar> + \<bar>y - x\<bar>" by linarith
  ultimately have "\<bar>z - x\<bar> \<le> b * (\<bar>x\<bar> + a * \<bar>x\<bar>) + a * \<bar>x\<bar>"
    using assms(1) by linarith
  then show ?thesis by (simp add: algebra_simps)
qed

lemma rel_err_scale:
  assumes "\<bar>y - x\<bar> \<le> a * \<bar>x\<bar>"
  shows "\<bar>y * k - x * k\<bar> \<le> a * \<bar>x * (k::real)\<bar>"
proof -
  have "\<bar>y * k - x * k\<bar> = \<bar>y - x\<bar> * \<bar>k\<bar>"
    by (simp add: abs_mult flip: left_diff_distrib)
  also have "\<dots> \<le> a * \<bar>x\<bar> * \<bar>k\<bar>"
    using assms by (rule mult_right_mono) simp
  finally show ?thesis by (simp add: abs_mult mult.assoc)
qed

lemma fl_half:
  assumes "x = 0 \<or> 2 powi (- 1022) \<le> \<bar>x\<bar>"
  shows "\<bar>x\<bar> / 2 \<le> \<bar>fl x\<bar>"
proof -
  have "\<bar>fl x - x\<bar> \<le> 2 powi (- 53) * \<bar>x\<bar>"
    using assms by (rule fl_error)
  moreover have "2 powi (- 53) * \<bar>x\<bar> \<le> 1 / 2 * \<bar>x\<bar>"
    by (rule mult_right_mono) simp_all
  ultimately show ?thesis by linarith
qed

text \<open>Two roundings: a product with a constant, rounded, times a second constant, rounded.\<close>

lemma fl_two_steps:
  assumes x: "x = 0 \<or> 2 powi (- 1000) \<le> \<bar>x\<bar>"
    and k: "2 powi (- 7) \<le> k" and l: "2 powi (- 7) \<le> l"
  shows "\<bar>fl (fl (x * k) * l) - x * k * l\<bar>
           \<le> (2 powi (- 53) + 2 powi (- 53) + 2 powi (- 53) * 2 powi (- 53)) * \<bar>x * k * l\<bar>"
proof (cases "x = 0")
  case True
  then show ?thesis by (simp add: fl_def)
next
  case False
  with x have low: "2 powi (- 1000) \<le> \<bar>x\<bar>" by simp
  have kpos: "0 < k" and lpos: "0 < l"
    using k l zero_less_power_int [of "2::real" "- 7"] by linarith+
  have "2 powi (- 1000) * 2 powi (- 7) \<le> \<bar>x\<bar> * k"
    using low k by (intro mult_mono) simp_all
  then have xk: "2 powi (- 1007) \<le> \<bar>x * k\<bar>"
    using kpos by (simp add: abs_mult power_int_add [symmetric])
  have "(2::real) powi (- 1022) \<le> 2 powi (- 1007)"
    by (rule power_int_increasing) simp_all
  with xk have r1: "x * k = 0 \<or> 2 powi (- 1022) \<le> \<bar>x * k\<bar>" by linarith
  have e1: "\<bar>fl (x * k) - x * k\<bar> \<le> 2 powi (- 53) * \<bar>x * k\<bar>"
    using r1 by (rule fl_error)
  have "\<bar>x * k\<bar> / 2 \<le> \<bar>fl (x * k)\<bar>"
    using r1 by (rule fl_half)
  then have "2 powi (- 1007) / 2 \<le> \<bar>fl (x * k)\<bar>"
    using xk by linarith
  then have "2 powi (- 1007) / 2 * 2 powi (- 7) \<le> \<bar>fl (x * k)\<bar> * l"
    using l by (intro mult_mono) simp_all
  moreover have "(2::real) powi (- 1022) \<le> 2 powi (- 1007) / 2 * 2 powi (- 7)"
    by simp
  ultimately have "2 powi (- 1022) \<le> \<bar>fl (x * k) * l\<bar>"
    using lpos by (simp add: abs_mult)
  then have e2: "\<bar>fl (fl (x * k) * l) - fl (x * k) * l\<bar> \<le> 2 powi (- 53) * \<bar>fl (x * k) * l\<bar>"
    by (intro fl_error) simp
  have s: "\<bar>fl (x * k) * l - x * k * l\<bar> \<le> 2 powi (- 53) * \<bar>x * k * l\<bar>"
    using e1 by (rule rel_err_scale)
  show ?thesis
    using s e2 by (rule rel_err_trans) simp
qed

lemma fl_constants_low: "2 powi (- 7) \<le> to_rad_fl" "2 powi (- 7) \<le> to_deg_fl"
  by (simp_all add: to_rad_fl_value to_deg_fl_value)

lemma fl_constants_product: "\<bar>to_rad_fl * to_deg_fl - 1\<bar> \<le> 2 powi (- 55)"
  by (simp add: to_rad_fl_value to_deg_fl_value)

lemma to_rad_fl_error: "\<bar>to_rad_fl - pi_fl / 180\<bar> \<le> 2 powi (- 53) * \<bar>pi_fl / 180\<bar>"
  by (simp add: to_rad_fl_value pi_fl_def)

lemma to_deg_fl_error: "\<bar>to_deg_fl - 180 / pi_fl\<bar> \<le> 2 powi (- 53) * \<bar>180 / pi_fl\<bar>"
  by (simp add: to_deg_fl_value pi_fl_def)

lemma fl_one_step:
  assumes x: "x = 0 \<or> 2 powi (- 1000) \<le> \<bar>x\<bar>" and k: "2 powi (- 7) \<le> k"
  shows "\<bar>fl (x * k) - x * k\<bar> \<le> 2 powi (- 53) * \<bar>x * k\<bar>"
proof (cases "x = 0")
  case True
  then show ?thesis by (simp add: fl_def)
next
  case False
  with x have low: "2 powi (- 1000) \<le> \<bar>x\<bar>" by simp
  have kpos: "0 < k"
    using k zero_less_power_int [of "2::real" "- 7"] by linarith
  have "2 powi (- 1000) * 2 powi (- 7) \<le> \<bar>x\<bar> * k"
    using low k by (intro mult_mono) simp_all
  moreover have "(2::real) powi (- 1022) \<le> 2 powi (- 1000) * 2 powi (- 7)"
    by simp
  ultimately have "2 powi (- 1022) \<le> \<bar>x * k\<bar>"
    using kpos by (simp add: abs_mult)
  then show ?thesis
    by (intro fl_error) simp
qed

lemma round_trip_tolerance:
  assumes x: "x = 0 \<or> 2 powi (- 1000) \<le> \<bar>x\<bar>"
    and k: "2 powi (- 7) \<le> k" and l: "2 powi (- 7) \<le> l"
    and kl: "\<bar>k * l - 1\<bar> \<le> 2 powi (- 55)"
  shows "\<bar>fl (fl (x * k) * l) - x\<bar> \<le> 5 * 2 powi (- 53) * \<bar>x\<bar>"
proof -
  have "\<bar>x * k * l - x\<bar> = \<bar>k * l - 1\<bar> * \<bar>x\<bar>"
    by (simp add: algebra_simps flip: abs_mult)
  also have "\<dots> \<le> 2 powi (- 55) * \<bar>x\<bar>"
    using kl by (rule mult_right_mono) simp
  finally have e1: "\<bar>x * k * l - x\<bar> \<le> 2 powi (- 55) * \<bar>x\<bar>" .
  have e2: "\<bar>fl (fl (x * k) * l) - x * k * l\<bar>
           \<le> (2 powi (- 53) + 2 powi (- 53) + 2 powi (- 53) * 2 powi (- 53)) * \<bar>x * k * l\<bar>"
    using x k l by (rule fl_two_steps)
  have "\<bar>fl (fl (x * k) * l) - x\<bar>
      \<le> (2 powi (- 55) + (2 powi (- 53) + 2 powi (- 53) + 2 powi (- 53) * 2 powi (- 53))
         + 2 powi (- 55) * (2 powi (- 53) + 2 powi (- 53) + 2 powi (- 53) * 2 powi (- 53)))
        * \<bar>x\<bar>"
    using e1 e2 by (rule rel_err_trans) simp
  also have "\<dots> \<le> 5 * 2 powi (- 53) * \<bar>x\<bar>"
    by (rule mult_right_mono) simp_all
  finally show ?thesis .
qed

lemma rel_err_swap:
  assumes "\<bar>y - x\<bar> \<le> a * \<bar>x\<bar>" and "0 \<le> a" and "a \<le> 1 / 2"
  shows "\<bar>y - x\<bar> \<le> 2 * a * \<bar>y::real\<bar>"
proof -
  have "a * \<bar>x\<bar> \<le> 1 / 2 * \<bar>x\<bar>"
    using assms(3) by (rule mult_right_mono) simp
  then have "\<bar>x\<bar> \<le> 2 * \<bar>y\<bar>"
    using assms(1) by linarith
  then have "a * \<bar>x\<bar> \<le> a * (2 * \<bar>y\<bar>)"
    using assms(2) by (rule mult_left_mono)
  then show ?thesis
    using assms(1) by (simp add: algebra_simps)
qed

lemma rads_of_degs_relation:
  assumes "d = 0 \<or> 2 powi (- 1000) \<le> \<bar>d\<bar>"
  shows "\<bar>fl (d * to_rad_fl) - d * (pi_fl / 180)\<bar> \<le> 5 * 2 powi (- 53) * \<bar>fl (d * to_rad_fl)\<bar>"
proof -
  have "\<bar>to_rad_fl * d - pi_fl / 180 * d\<bar> \<le> 2 powi (- 53) * \<bar>pi_fl / 180 * d\<bar>"
    using to_rad_fl_error by (rule rel_err_scale)
  then have e1: "\<bar>d * to_rad_fl - d * (pi_fl / 180)\<bar> \<le> 2 powi (- 53) * \<bar>d * (pi_fl / 180)\<bar>"
    by (simp only: mult.commute)
  have e2: "\<bar>fl (d * to_rad_fl) - d * to_rad_fl\<bar> \<le> 2 powi (- 53) * \<bar>d * to_rad_fl\<bar>"
    using assms fl_constants_low(1) by (rule fl_one_step)
  have "\<bar>fl (d * to_rad_fl) - d * (pi_fl / 180)\<bar>
      \<le> (2 powi (- 53) + 2 powi (- 53) + 2 powi (- 53) * 2 powi (- 53)) * \<bar>d * (pi_fl / 180)\<bar>"
    using e1 e2 by (rule rel_err_trans) simp
  then have "\<bar>fl (d * to_rad_fl) - d * (pi_fl / 180)\<bar>
      \<le> 2 * (2 powi (- 53) + 2 powi (- 53) + 2 powi (- 53) * 2 powi (- 53))
          * \<bar>fl (d * to_rad_fl)\<bar>"
    by (rule rel_err_swap) simp_all
  also have "\<dots> \<le> 5 * 2 powi (- 53) * \<bar>fl (d * to_rad_fl)\<bar>"
    by (rule mult_right_mono) simp_all
  finally show ?thesis .
qed

lemma degs_of_rads_relation:
  assumes "r = 0 \<or> 2 powi (- 1000) \<le> \<bar>r\<bar>"
  shows "\<bar>r - fl (r * to_deg_fl) * (pi_fl / 180)\<bar> \<le> 5 * 2 powi (- 53) * \<bar>r\<bar>"
proof -
  have "\<bar>to_deg_fl * r - 180 / pi_fl * r\<bar> \<le> 2 powi (- 53) * \<bar>180 / pi_fl * r\<bar>"
    using to_deg_fl_error by (rule rel_err_scale)
  then have e1: "\<bar>r * to_deg_fl - r * (180 / pi_fl)\<bar> \<le> 2 powi (- 53) * \<bar>r * (180 / pi_fl)\<bar>"
    by (simp only: mult.commute)
  have e2: "\<bar>fl (r * to_deg_fl) - r * to_deg_fl\<bar> \<le> 2 powi (- 53) * \<bar>r * to_deg_fl\<bar>"
    using assms fl_constants_low(2) by (rule fl_one_step)
  have "\<bar>fl (r * to_deg_fl) - r * (180 / pi_fl)\<bar>
      \<le> (2 powi (- 53) + 2 powi (- 53) + 2 powi (- 53) * 2 powi (- 53)) * \<bar>r * (180 / pi_fl)\<bar>"
    using e1 e2 by (rule rel_err_trans) simp
  then have "\<bar>fl (r * to_deg_fl) * (pi_fl / 180) - r * (180 / pi_fl) * (pi_fl / 180)\<bar>
      \<le> (2 powi (- 53) + 2 powi (- 53) + 2 powi (- 53) * 2 powi (- 53))
          * \<bar>r * (180 / pi_fl) * (pi_fl / 180)\<bar>"
    by (rule rel_err_scale)
  moreover have "r * (180 / pi_fl) * (pi_fl / 180) = r"
    by (simp add: pi_fl_def)
  ultimately have "\<bar>fl (r * to_deg_fl) * (pi_fl / 180) - r\<bar>
      \<le> (2 powi (- 53) + 2 powi (- 53) + 2 powi (- 53) * 2 powi (- 53)) * \<bar>r\<bar>"
    by simp
  also have "\<dots> \<le> 5 * 2 powi (- 53) * \<bar>r\<bar>"
    by (rule mult_right_mono) simp_all
  finally show ?thesis
    by (simp only: abs_minus_commute)
qed

section \<open>Degrees and radians on doubles\<close>

text \<open>
  Claim C5, as amended. Take a satellite whose four angles are given, in degrees or in
  radians, as doubles that are zero or of magnitude between \<open>2^-1000\<close> and \<open>2^1000\<close>.
  Each stored radian value differs from the stored degree value times \<open>pi / 180\<close>
  (\<open>pi\<close> is the double \<open>math.pi\<close>) by at most \<open>5 * 2^-53\<close> of its magnitude; and
  converting the four angles to radians and back to degrees, or to degrees and back to
  radians, changes each by at most \<open>5 * 2^-53\<close> of its magnitude. The equations do not hold
  exactly: the counterexample below shows that 60 degrees come back as
  \<open>59.99999999999999\<close> and 43 radians as \<open>43.00000000000001\<close>.
\<close>

theorem stored_angles_within_tolerance:
  assumes "list_all (\<lambda>x. x = 0 \<or> 2 powi (- 1000) \<le> \<bar>x\<bar> \<and> \<bar>x\<bar> \<le> 2 powi 1000)
             (angles_list angles)"
  shows "list_all2 (\<lambda>d r. \<bar>r - d * (pi_fl / 180)\<bar> \<le> 5 * 2 powi (- 53) * \<bar>r\<bar>)
           (angles_list (fst (stored_angles_fl rads angles)))
           (angles_list (snd (stored_angles_fl rads angles))) \<and>
         list_all2 (\<lambda>a b. \<bar>b - a\<bar> \<le> 5 * 2 powi (- 53) * \<bar>a\<bar>)
           (angles_list angles) (angles_list (convert_to_degs_fl (convert_to_rads_fl angles))) \<and>
         list_all2 (\<lambda>a b. \<bar>b - a\<bar> \<le> 5 * 2 powi (- 53) * \<bar>a\<bar>)
           (angles_list angles) (angles_list (convert_to_rads_fl (convert_to_degs_fl angles)))"
proof -
  obtain a1 a2 a3 a4 where angles: "angles = (a1, a2, a3, a4)"
    by (cases angles) auto
  have r: "x = 0 \<or> 2 powi (- 1000) \<le> \<bar>x\<bar>" if "x \<in> {a1, a2, a3, a4}" for x
    using assms that unfolding angles angles_list_def by auto
  have rel: "\<bar>fl (x * to_rad_fl) - x * (pi_fl / 180)\<bar> \<le> 5 * 2 powi (- 53) * \<bar>fl (x * to_rad_fl)\<bar>"
    "\<bar>x - fl (x * to_deg_fl) * (pi_fl / 180)\<bar> \<le> 5 * 2 powi (- 53) * \<bar>x\<bar>"
    "\<bar>fl (fl (x * to_rad_fl) * to_deg_fl) - x\<bar> \<le> 5 * 2 powi (- 53) * \<bar>x\<bar>"
    "\<bar>fl (fl (x * to_deg_fl) * to_rad_fl) - x\<bar> \<le> 5 * 2 powi (- 53) * \<bar>x\<bar>"
    if "x \<in> {a1, a2, a3, a4}" for x
  proof -
    note x = r [OF that]
    show "\<bar>fl (x * to_rad_fl) - x * (pi_fl / 180)\<bar> \<le> 5 * 2 powi (- 53) * \<bar>fl (x * to_rad_fl)\<bar>"
      using x by (rule rads_of_degs_relation)
    show "\<bar>x - fl (x * to_deg_fl) * (pi_fl / 180)\<bar> \<le> 5 * 2 powi (- 53) * \<bar>x\<bar>"
      using x by (rule degs_of_rads_relation)
    show "\<bar>fl (fl (x * to_rad_fl) * to_deg_fl) - x\<bar> \<le> 5 * 2 powi (- 53) * \<bar>x\<bar>"
      using x fl_constants_low(1) fl_constants_low(2) fl_constants_product
      by (rule round_trip_tolerance)
    have "\<bar>to_deg_fl * to_rad_fl - 1\<bar> \<le> 2 powi (- 55)"
      using fl_constants_product by (simp only: mult.commute)
    with x fl_constants_low(2) fl_constants_low(1)
    show "\<bar>fl (fl (x * to_deg_fl) * to_rad_fl) - x\<bar> \<le> 5 * 2 powi (- 53) * \<bar>x\<bar>"
      by (rule round_trip_tolerance)
  qed
  show ?thesis
    unfolding angles
    by (cases rads)
      (simp_all only: stored_angles_fl_def convert_to_rads_fl_def convert_to_degs_fl_def
        angles_list_def prod.case fst_conv snd_conv if_True if_False not_True_eq_False
        not_False_eq_True list_all2_Cons list_all2_Nil simp_thms rel insertI1 insertI2)
qed

theorem stored_angles_within_tolerance_witness:
  "list_all (\<lambda>x. x = 0 \<or> 2 powi (- 1000) \<le> \<bar>x\<bar> \<and> \<bar>x\<bar> \<le> 2 powi 1000)
     (angles_list (53, 180, 0, 60)) \<and>
   list_all2 (\<lambda>d r. \<bar>r - d * (pi_fl / 180)\<bar> \<le> 5 * 2 powi (- 53) * \<bar>r\<bar>)
     (angles_list (fst (stored_angles_fl False (53, 180, 0, 60))))
     (angles_list (snd (stored_angles_fl False (53, 180, 0, 60)))) \<and>
   list_all2 (\<lambda>a b. \<bar>b - a\<bar> \<le> 5 * 2 powi (- 53) * \<bar>a\<bar>)
     (angles_list (53, 180, 0, 60))
     (angles_list (convert_to_degs_fl (convert_to_rads_fl (53, 180, 0, 60)))) \<and>
   list_all2 (\<lambda>a b. \<bar>b - a\<bar> \<le> 5 * 2 powi (- 53) * \<bar>a\<bar>)
     (angles_list (53, 180, 0, 60))
     (angles_list (convert_to_rads_fl (convert_to_degs_fl (53, 180, 0, 60))))"
proof -
  have h: "list_all (\<lambda>x. x = 0 \<or> 2 powi (- 1000) \<le> \<bar>x\<bar> \<and> \<bar>x\<bar> \<le> 2 powi 1000)
             (angles_list (53, 180, 0, 60))"
    by (simp add: angles_list_def)
  show ?thesis
    using h stored_angles_within_tolerance [OF h, of False] by (rule conjI)
qed

theorem conversion_round_trip_counterexample:
  "fst (convert_to_degs_fl (convert_to_rads_fl (60, 0, 0, 0))) = 8444249301319679 / 2 ^ 47 \<and>
   convert_to_degs_fl (convert_to_rads_fl (60, 0, 0, 0)) \<noteq> (60, 0, 0, 0) \<and>
   fst (convert_to_rads_fl (convert_to_degs_fl (43, 0, 0, 0))) = 6051711999279105 / 2 ^ 47 \<and>
   convert_to_rads_fl (convert_to_degs_fl (43, 0, 0, 0)) \<noteq> (43, 0, 0, 0)"
  by (simp add: convert_to_degs_fl_def convert_to_rads_fl_def fl_60_round_trip
      fl_43_round_trip)

end
